theory Spec2Isabelle
  imports Main "HOL-Library.AList" "HOL-Library.Sublist"
begin

section \<open>Exit codes, exceptions and printed text\<close>

text \<open>
  The plugin \<^verbatim>\<open>check_hycu_vm_backup_v2.1.py\<close> ends every run with one of four
  process exit codes. They are module constants of the source.
\<close>

definition EXIT_OK :: nat where "EXIT_OK = 0"
definition EXIT_WARNING :: nat where "EXIT_WARNING = 1"
definition EXIT_CRITICAL :: nat where "EXIT_CRITICAL = 2"
definition EXIT_UNKNOWN :: nat where "EXIT_UNKNOWN = 3"

text \<open>
  What a run prints before it stops: the option parser's help text
  (\<^verbatim>\<open>parser.print_help()\<close>), the lines of one or more \<^verbatim>\<open>print\<close> calls, or the
  message handed to \<^verbatim>\<open>parser.error\<close>, which optparse writes with the usage line
  before it exits with status 2.
\<close>

datatype printed = Help | Lines "string list" | ParserError string

text \<open>
  Every way a function of the source stops without returning: \<^verbatim>\<open>sys.exit(code)\<close>
  after printing, the module's own \<^verbatim>\<open>HycuAPIError\<close>, and the built-in exceptions
  of a missing dictionary key, an empty list and an unbound local variable.
\<close>

datatype error =
    SystemExit nat printed
  | HycuAPIError string
  | KeyError string
  | IndexError
  | NameError string

definition and_then :: "error + 'a \<Rightarrow> ('a \<Rightarrow> error + 'b) \<Rightarrow> error + 'b" where
  "and_then r f = (case r of Inl e \<Rightarrow> Inl e | Inr v \<Rightarrow> f v)"

section \<open>Strings\<close>

text \<open>
  Python's \<^verbatim>\<open>str.upper\<close>, \<^verbatim>\<open>str.lower\<close>, \<^verbatim>\<open>sep.join\<close> and the substring test
  \<^verbatim>\<open>sub in s\<close>. A \<^typ>\<open>string\<close> is a list of bytes, so the two case conversions are
  the ASCII ones: the letters \<^verbatim>\<open>a\<close> to \<^verbatim>\<open>z\<close> and \<^verbatim>\<open>A\<close> to \<^verbatim>\<open>Z\<close> are
  converted, every other byte is kept.
\<close>

definition upper_char :: "char \<Rightarrow> char" where
  "upper_char c =
     (let n = (of_char c :: nat) in if 97 \<le> n \<and> n \<le> 122 then char_of (n - 32) else c)"

definition lower_char :: "char \<Rightarrow> char" where
  "lower_char c =
     (let n = (of_char c :: nat) in if 65 \<le> n \<and> n \<le> 90 then char_of (n + 32) else c)"

definition upper :: "string \<Rightarrow> string" where
  "upper s = map upper_char s"

definition lower :: "string \<Rightarrow> string" where
  "lower s = map lower_char s"

fun join :: "string \<Rightarrow> string list \<Rightarrow> string" where
  "join sep [] = []"
| "join sep [x] = x"
| "join sep (x # y # ys) = x @ sep @ join sep (y # ys)"

fun contains :: "string \<Rightarrow> string \<Rightarrow> bool" where
  "contains [] sub = (sub = [])"
| "contains (c # cs) sub = (prefix sub (c # cs) \<or> contains cs sub)"

text \<open>Truth value of an optional string: \<^verbatim>\<open>None\<close> and \<^verbatim>\<open>''\<close> are false.\<close>

definition truthy :: "string option \<Rightarrow> bool" where
  "truthy s = (case s of None \<Rightarrow> False | Some t \<Rightarrow> t \<noteq> [])"

text \<open>\<^verbatim>\<open>x in xs\<close> for an optional string and a list of strings.\<close>

definition in_list :: "string option \<Rightarrow> string list \<Rightarrow> bool" where
  "in_list x xs = (case x of None \<Rightarrow> False | Some t \<Rightarrow> t \<in> set xs)"

section \<open>Command line\<close>

text \<open>
  The values optparse hands back: the four string options are \<^verbatim>\<open>None\<close> when the
  flag is not given, the integer options carry their defaults (\<^verbatim>\<open>-T\<close> 100,
  \<^verbatim>\<open>-w\<close> 5, \<^verbatim>\<open>-c\<close> 10, \<^verbatim>\<open>-p\<close> 24).
\<close>

record options =
  apitoken :: "string option"
  host :: "string option"
  vmtarget :: "string option"
  scantype :: "string option"
  timeout :: int
  verbose :: bool
  warning_threshold :: int
  critical_threshold :: int
  period_hours :: int

definition CHECK_TYPES :: "(string \<times> string list) list" where
  "CHECK_TYPES =
     [(''objects'', [''vm'', ''vmid'', ''target'', ''archive'']),
      (''policies'', [''policy'', ''policy-advanced'']),
      (''global'', [''manager'', ''jobs'', ''license'', ''version'']),
      (''storage'', [''shares'', ''buckets'']),
      (''validation'', [''backup-validation'', ''unassigned'']),
      (''network'', [''port''])]"

definition ALL_CHECK_TYPES :: "string list" where
  "ALL_CHECK_TYPES = concat (map snd CHECK_TYPES)"

definition validate_thresholds :: "int \<Rightarrow> int \<Rightarrow> bool \<Rightarrow> error + bool" where
  "validate_thresholds warning critical inverted =
     (if warning < 0 \<or> critical < 0 then
        Inl (SystemExit EXIT_UNKNOWN (Lines [''ERROR: Thresholds must be positive integers'']))
      else if inverted then
        (if critical > warning then
           Inl (SystemExit EXIT_UNKNOWN (Lines
             [''ERROR: For license checks, critical threshold must be <= warning threshold'']))
         else Inr True)
      else
        (if critical < warning then
           Inl (SystemExit EXIT_UNKNOWN (Lines
             [''ERROR: Critical threshold must be >= warning threshold'']))
         else Inr True))"

definition types_without_vmtarget :: "string list" where
  "types_without_vmtarget =
     [''jobs'', ''license'', ''version'', ''backup-validation'', ''shares'', ''buckets'',
      ''unassigned'']"

definition types_without_token :: "string list" where
  "types_without_token = [''port'']"

text \<open>
  The first block of \<^verbatim>\<open>parse_arguments\<close>: which of \<^verbatim>\<open>-a\<close>, \<^verbatim>\<open>-l\<close>, \<^verbatim>\<open>-n\<close>,
  \<^verbatim>\<open>-t\<close> must be given. \<^verbatim>\<open>all([...])\<close> asks each value for its truth.
\<close>

definition required_arguments :: "options \<Rightarrow> error + options" where
  "required_arguments opts =
     (if in_list (scantype opts) types_without_vmtarget then
        and_then
          (if in_list (scantype opts) types_without_token then
             (if \<not> (truthy (host opts) \<and> truthy (scantype opts))
              then Inl (SystemExit EXIT_UNKNOWN Help) else Inr opts)
           else
             (if \<not> (truthy (apitoken opts) \<and> truthy (host opts) \<and> truthy (scantype opts))
              then Inl (SystemExit EXIT_UNKNOWN Help) else Inr opts))
          (\<lambda>opts. if \<not> truthy (vmtarget opts)
                   then Inr (opts\<lparr>vmtarget := scantype opts\<rparr>) else Inr opts)
      else
        (if \<not> (truthy (apitoken opts) \<and> truthy (host opts) \<and> truthy (vmtarget opts)
                \<and> truthy (scantype opts))
         then Inl (SystemExit EXIT_UNKNOWN Help) else Inr opts))"

text \<open>The text in braces of an f-string for an optional string.\<close>

definition str_opt :: "string option \<Rightarrow> string" where
  "str_opt s = (case s of None \<Rightarrow> ''None'' | Some t \<Rightarrow> t)"

definition validate_scantype :: "options \<Rightarrow> error + options" where
  "validate_scantype opts =
     (if \<not> in_list (scantype opts) ALL_CHECK_TYPES then
        Inl (SystemExit EXIT_UNKNOWN (Lines
          ([''ERROR: Invalid type '' @ [CHR 0x27] @ str_opt (scantype opts) @ [CHR 0x27] @ ''.'',
            [CHR 0x0A] @ ''Available check types by category:'']
           @ map (\<lambda>(category, types). ''  '' @ upper category @ '': '' @ join '', '' types)
               CHECK_TYPES)))
      else Inr opts)"

definition validate_period :: "options \<Rightarrow> error + options" where
  "validate_period opts =
     (if period_hours opts < 1 \<or> period_hours opts > 168
      then Inl (SystemExit 2 (ParserError ''Period must be between 1 and 168 hours''))
      else Inr opts)"

definition check_thresholds :: "bool \<Rightarrow> options \<Rightarrow> error + options" where
  "check_thresholds inverted opts =
     and_then (validate_thresholds (warning_threshold opts) (critical_threshold opts) inverted)
       (\<lambda>_. Inr opts)"

definition validate_jobs :: "options \<Rightarrow> error + options" where
  "validate_jobs opts =
     (if scantype opts = Some ''jobs''
      then and_then (check_thresholds False opts) validate_period
      else Inr opts)"

definition validate_policy_advanced :: "options \<Rightarrow> error + options" where
  "validate_policy_advanced opts =
     (if scantype opts = Some ''policy-advanced'' then check_thresholds False opts
      else Inr opts)"

definition validate_license :: "options \<Rightarrow> error + options" where
  "validate_license opts =
     (if scantype opts = Some ''license'' then check_thresholds True opts else Inr opts)"

definition validate_counting :: "options \<Rightarrow> error + options" where
  "validate_counting opts =
     (if in_list (scantype opts) [''backup-validation'', ''shares'', ''buckets'', ''unassigned'']
      then and_then (check_thresholds False opts)
             (\<lambda>opts. if scantype opts = Some ''backup-validation''
                      then validate_period opts else Inr opts)
      else Inr opts)"

text \<open>
  The port number comes through \<^verbatim>\<open>-n\<close>. Python's \<^verbatim>\<open>int(s)\<close> is a parameter:
  \<open>py_int s\<close> is \<open>None\<close> where \<^verbatim>\<open>int\<close> raises \<^verbatim>\<open>ValueError\<close>.
\<close>

definition validate_port :: "(string \<Rightarrow> int option) \<Rightarrow> options \<Rightarrow> error + options" where
  "validate_port py_int opts =
     (if scantype opts = Some ''port'' then
        (if truthy (vmtarget opts) \<and> vmtarget opts \<noteq> Some ''port'' then
           (case py_int (str_opt (vmtarget opts)) of
              Some port_num \<Rightarrow>
                if port_num < 1 \<or> port_num > 65535
                then Inl (SystemExit 2 (ParserError ''Port number must be between 1 and 65535''))
                else Inr opts
            | None \<Rightarrow>
                Inl (SystemExit 2 (ParserError
                  (''Port number must be an integer, got '' @ [CHR 0x27]
                   @ str_opt (vmtarget opts) @ [CHR 0x27]))))
         else Inr opts)
      else Inr opts)"

definition parse_arguments :: "(string \<Rightarrow> int option) \<Rightarrow> options \<Rightarrow> error + options" where
  "parse_arguments py_int opts =
     and_then (required_arguments opts) (\<lambda>opts.
     and_then (validate_scantype opts) (\<lambda>opts.
     and_then (validate_jobs opts) (\<lambda>opts.
     and_then (validate_policy_advanced opts) (\<lambda>opts.
     and_then (validate_license opts) (\<lambda>opts.
     and_then (validate_counting opts) (\<lambda>opts.
     validate_port py_int opts))))))"

section \<open>API responses\<close>

text \<open>
  A decoded JSON object is a Python dictionary. The model groups its keys by the type
  the API gives their values: \<open>strs\<close> holds the keys with a string value, \<open>ints\<close>
  those with an integer value, \<open>lists\<close> those whose value is a list of strings. A key is
  looked up under the name the source uses; \<open>None\<close> says that the key is absent (for
  the one key the source reads without a default and tests for truth,
  \<^verbatim>\<open>protectionGroupName\<close>, a JSON \<^verbatim>\<open>null\<close> behaves the same). The same type
  serves for every entity of every listing, as the source reads them all as plain
  dictionaries. A value of another type than the API gives the key (a number where
  the source expects a string), and the \<^verbatim>\<open>TypeError\<close> or \<^verbatim>\<open>AttributeError\<close> it
  would raise, is outside the model.
\<close>

record entity =
  strs :: "string \<rightharpoonup> string"
  ints :: "string \<rightharpoonup> int"
  lists :: "string \<rightharpoonup> string list"

text \<open>
  The body of a response: a dictionary that may hold the keys \<^verbatim>\<open>entities\<close> (a list
  of dictionaries) and \<^verbatim>\<open>metadata\<close> (a dictionary) beside its own scalar keys.
\<close>

record response = entity +
  entities :: "entity list option"
  metadata :: "entity option"

text \<open>
  What \<^verbatim>\<open>api_request\<close> gives a handler: the decoded body, or \<^verbatim>\<open>HycuAPIError\<close>
  raised for a transport failure, a status other than 200 or a body that is not JSON.
\<close>

type_synonym api_result = "error + response"

definition empty_entity :: entity where
  "empty_entity = \<lparr>strs = Map.empty, ints = Map.empty, lists = Map.empty\<rparr>"

definition empty_response :: response where
  "empty_response =
     \<lparr>strs = Map.empty, ints = Map.empty, lists = Map.empty, entities = None, metadata = None\<rparr>"

text \<open>\<^verbatim>\<open>d.get(key, default)\<close> at each value type, and \<^verbatim>\<open>d[key]\<close> for a string.\<close>

definition get_str :: "'a entity_scheme \<Rightarrow> string \<Rightarrow> string \<Rightarrow> string" where
  "get_str d key dflt = (case strs d key of None \<Rightarrow> dflt | Some v \<Rightarrow> v)"

definition get_int :: "'a entity_scheme \<Rightarrow> string \<Rightarrow> int \<Rightarrow> int" where
  "get_int d key dflt = (case ints d key of None \<Rightarrow> dflt | Some v \<Rightarrow> v)"

definition get_list :: "'a entity_scheme \<Rightarrow> string \<Rightarrow> string list \<Rightarrow> string list" where
  "get_list d key dflt = (case lists d key of None \<Rightarrow> dflt | Some v \<Rightarrow> v)"

definition item_str :: "'a entity_scheme \<Rightarrow> string \<Rightarrow> error + string" where
  "item_str d key = (case strs d key of None \<Rightarrow> Inl (KeyError key) | Some v \<Rightarrow> Inr v)"

text \<open>\<^verbatim>\<open>data['entities'][0]\<close>.\<close>

definition first_entity :: "response \<Rightarrow> error + entity" where
  "first_entity data =
     (case entities data of
        None \<Rightarrow> Inl (KeyError ''entities'')
      | Some [] \<Rightarrow> Inl IndexError
      | Some (e # _) \<Rightarrow> Inr e)"

text \<open>\<^verbatim>\<open>data.get('metadata', {}).get('grandTotalEntityCount', 0)\<close>.\<close>

definition grand_total :: "response \<Rightarrow> int" where
  "grand_total data =
     (case metadata data of
        None \<Rightarrow> 0
      | Some m \<Rightarrow> get_int m ''grandTotalEntityCount'' 0)"

text \<open>Python's \<^verbatim>\<open>str\<close> of an integer, as an f-string prints it.\<close>

definition digit :: "nat \<Rightarrow> char" where
  "digit n = char_of (48 + n)"

fun str_nat :: "nat \<Rightarrow> string" where
  "str_nat n = (if n < 10 then [digit n] else str_nat (n div 10) @ [digit (n mod 10)])"

declare str_nat.simps [simp del]

definition str_int :: "int \<Rightarrow> string" where
  "str_int i = (if i < 0 then ''-'' @ str_nat (nat (- i)) else str_nat (nat i))"

section \<open>Entity resolver\<close>

text \<open>
  \<^verbatim>\<open>get_entity_uuid\<close> builds a dictionary from the listing with a comprehension and
  looks the name up in it. A Python dictionary keeps its keys in the order of their
  first insertion and a later value for a key replaces the earlier one in place: this
  is \<^const>\<open>AList.update\<close> on an association list. \<^verbatim>\<open>entity[name_field]\<close> and
  \<^verbatim>\<open>entity['uuid']\<close> raise \<^verbatim>\<open>KeyError\<close> for an entity without the key; the
  key of the comprehension is evaluated before its value. The debugging lines of
  verbose mode are not part of the model, here and in every handler.
\<close>

fun entity_dict_of ::
  "string \<Rightarrow> entity list \<Rightarrow> (string \<times> string) list \<Rightarrow> error + (string \<times> string) list"
where
  "entity_dict_of name_field [] d = Inr d"
| "entity_dict_of name_field (e # es) d =
     and_then (item_str e name_field) (\<lambda>k.
     and_then (item_str e ''uuid'') (\<lambda>v.
     entity_dict_of name_field es (AList.update k v d)))"



section \<open>Handlers that map a status\<close>

text \<open>
  Each handler takes the result of its \<^verbatim>\<open>api_request\<close> call and returns the pair
  of the exit code and the output line, or the exception it lets through.
\<close>

text \<open>
  \<^verbatim>\<open>status_map.get(status, (EXIT_UNKNOWN, 1))\<close>: the exit code and the value of the
  metric for a status, with the pair for a status the table does not hold.
\<close>

definition lookup_status :: "(string \<times> nat \<times> int) list \<Rightarrow> string \<Rightarrow> nat \<times> int" where
  "lookup_status table s = (case map_of table s of None \<Rightarrow> (EXIT_UNKNOWN, 1) | Some r \<Rightarrow> r)"

definition check_vm_backup :: "api_result \<Rightarrow> string \<Rightarrow> error + nat \<times> string" where
  "check_vm_backup api vm_name =
     and_then api (\<lambda>data.
       let backup_count = grand_total data in
       if backup_count = 0 then
         Inr (EXIT_CRITICAL, vm_name @ '' has no backups |backup_status=0;;;'')
       else
         and_then (first_entity data) (\<lambda>latest_backup.
         and_then (item_str latest_backup ''status'') (\<lambda>backup_status.
         and_then (item_str latest_backup ''type'') (\<lambda>backup_type.
           let vm_name_from_api = get_str latest_backup ''vmName'' vm_name;
               status_map = [(''OK'', (EXIT_OK, 2)),
                             (''WARNING'', (EXIT_WARNING, 1)),
                             (''FATAL'', (EXIT_CRITICAL, 0))];
               (exit_code, numeric_status) = lookup_status status_map backup_status;
               output = vm_name_from_api @ '' is '' @ backup_status @ '' for last ''
                        @ backup_type @ '' |backup_status='' @ str_int numeric_status @ '';;;''
           in Inr (exit_code, output)))))"

text \<open>
  The target is read from the first entity of a non-empty \<^verbatim>\<open>entities\<close> list, else
  from the response itself, taken as an entity (\<^const>\<open>entity.truncate\<close> keeps its
  scalar keys).
\<close>

definition check_target_health :: "api_result \<Rightarrow> string \<Rightarrow> error + nat \<times> string" where
  "check_target_health api target_name =
     and_then api (\<lambda>data.
       let target_data =
             (case entities data of
                Some (e # _) \<Rightarrow> e
              | _ \<Rightarrow> entity.truncate data);
           target_name_from_api = get_str target_data ''name'' target_name;
           target_health = get_str target_data ''health'' ''UNKNOWN'';
           health_map = [(''GREEN'', (EXIT_OK, 2)),
                         (''GREY'', (EXIT_WARNING, 1)),
                         (''RED'', (EXIT_CRITICAL, 0)),
                         (''GRAY'', (EXIT_WARNING, 1))];
           (exit_code, numeric_status) = lookup_status health_map target_health;
           output = target_name_from_api @ '' is '' @ target_health
                    @ '' |target_health='' @ str_int numeric_status @ '';;;''
       in Inr (exit_code, output))"

definition check_archive_status :: "api_result \<Rightarrow> string \<Rightarrow> error + nat \<times> string" where
  "check_archive_status api vm_name =
     and_then api (\<lambda>data.
       let backup_count = grand_total data in
       if backup_count = 0 then
         Inr (EXIT_CRITICAL, vm_name @ '' has no backups |archive_status=0;;;'')
       else
         and_then (first_entity data) (\<lambda>latest_backup.
           let vm_name_from_api = get_str latest_backup ''vmName'' vm_name in
           and_then (item_str latest_backup ''type'') (\<lambda>backup_type.
             let archives_ok = get_int latest_backup ''numberOfArchives'' 0;
                 archives_failed = get_int latest_backup ''numberOfFailedArchives'' 0;
                 (archive_status, exit_code, numeric_status) =
                   (if archives_failed \<ge> 1 then (''FAILED'', EXIT_CRITICAL, 0::int)
                    else if archives_ok \<ge> 1 then (''OK'', EXIT_OK, 2)
                    else (''MISSING'', EXIT_WARNING, 1));
                 output = vm_name_from_api @ '' archive is '' @ archive_status @ '' for last ''
                          @ backup_type @ '' |archive_status='' @ str_int numeric_status
                          @ '';;; archives_ok='' @ str_int archives_ok
                          @ '';;; archives_failed='' @ str_int archives_failed @ '';;;''
             in Inr (exit_code, output))))"

section \<open>Handlers that compare a count with the thresholds\<close>

text \<open>
  The source keeps its counters in a dictionary \<^verbatim>\<open>stats\<close> whose keys all start at
  0; here it is a function from the key to the counter, and \<^verbatim>\<open>stats[k] += 1\<close> is a
  function update. The parameters \<open>warning\<close> and \<open>critical\<close> are the source's
  \<^verbatim>\<open>warning_threshold\<close> and \<^verbatim>\<open>critical_threshold\<close>. These handlers return the exit code, the status label that opens
  the output line, and the counters from which the rest of the line is formatted (the
  text itself, with its rates printed as floating-point numbers, is not modelled).
\<close>

type_synonym stats = "string \<Rightarrow> int"

definition incr :: "stats \<Rightarrow> string \<Rightarrow> stats" where
  "incr stats key = stats(key := stats key + 1)"

subsection \<open>\<^verbatim>\<open>policy-advanced\<close>\<close>

text \<open>
  The loop that looks the policy up by name, case-insensitively, and stops at the first
  match. The handler then asks for the policy's details (\<open>detail_api\<close>, given the
  identifier); when no identifier was found it asks for the listing once more
  (\<open>names_api\<close>), prints what it can and exits with CRITICAL.
\<close>

fun find_policy :: "string \<Rightarrow> entity list \<Rightarrow> error + string option" where
  "find_policy policy_name_lower [] = Inr None"
| "find_policy policy_name_lower (policy # rest) =
     and_then (item_str policy ''name'') (\<lambda>n.
       if lower n = policy_name_lower
       then and_then (item_str policy ''uuid'') (\<lambda>u. Inr (Some u))
       else find_policy policy_name_lower rest)"

fun names_of :: "entity list \<Rightarrow> error + string list" where
  "names_of [] = Inr []"
| "names_of (p # ps) =
     and_then (item_str p ''name'') (\<lambda>n. and_then (names_of ps) (\<lambda>ns. Inr (n # ns)))"

definition policy_not_found :: "api_result \<Rightarrow> string \<Rightarrow> error" where
  "policy_not_found names_api policy_name =
     (let plain = ''CRITICAL: Policy '' @ [CHR 0x27] @ policy_name @ [CHR 0x27]
                  @ '' does not exist''
      in SystemExit EXIT_CRITICAL (Lines
        (case and_then names_api
                (\<lambda>data. names_of (case entities data of None \<Rightarrow> [] | Some es \<Rightarrow> es)) of
           Inl _ \<Rightarrow> [plain]
         | Inr available_names \<Rightarrow>
             if available_names \<noteq> [] then
               [plain, ''Available policies: '' @ join '', '' (take 5 available_names)]
               @ (if length available_names > 5
                  then [''... and '' @ str_int (int (length available_names) - 5) @ '' more'']
                  else [])
             else [plain @ '' (no policies found)''])))"

text \<open>
  The counters of the policy's detailed record and their three sums. The keys
  \<^verbatim>\<open>name\<close>, \<^verbatim>\<open>status\<close> and \<^verbatim>\<open>compliance_rate\<close> of the source's dictionary
  hold strings and a floating-point rate; they only feed the output text.
\<close>

definition policy_stats :: "entity \<Rightarrow> stats" where
  "policy_stats policy =
     (let stats = (\<lambda>_. 0)
        (''vms_total'' := get_int policy ''vmsCount'' 0,
         ''vms_compliant'' := get_int policy ''compliantVmsCount'' 0,
         ''vms_uncompliant'' := get_int policy ''uncompliantVmsCount'' 0,
         ''shares_total'' := get_int policy ''sharesCount'' 0,
         ''shares_compliant'' := get_int policy ''compliantSharesCount'' 0,
         ''shares_uncompliant'' := get_int policy ''uncompliantSharesCount'' 0,
         ''apps_total'' := get_int policy ''appsCount'' 0,
         ''apps_compliant'' := get_int policy ''compliantAppsCount'' 0,
         ''apps_uncompliant'' := get_int policy ''uncompliantAppsCount'' 0,
         ''buckets_total'' := get_int policy ''bucketsCount'' 0,
         ''buckets_compliant'' := get_int policy ''compliantBucketsCount'' 0,
         ''buckets_uncompliant'' := get_int policy ''uncompliantBucketsCount'' 0,
         ''vgs_total'' := get_int policy ''vgsCount'' 0,
         ''vgs_compliant'' := get_int policy ''compliantVgsCount'' 0,
         ''vgs_uncompliant'' := get_int policy ''uncompliantVgsCount'' 0);
          stats = stats(''total_objects'' :=
            stats ''vms_total'' + stats ''shares_total'' + stats ''apps_total''
            + stats ''buckets_total'' + stats ''vgs_total'');
          stats = stats(''total_compliant'' :=
            stats ''vms_compliant'' + stats ''shares_compliant'' + stats ''apps_compliant''
            + stats ''buckets_compliant'' + stats ''vgs_compliant'')
      in stats(''total_uncompliant'' :=
            stats ''vms_uncompliant'' + stats ''shares_uncompliant'' + stats ''apps_uncompliant''
            + stats ''buckets_uncompliant'' + stats ''vgs_uncompliant''))"

definition check_policy_advanced ::
  "api_result \<Rightarrow> api_result \<Rightarrow> (string \<Rightarrow> api_result) \<Rightarrow> string \<Rightarrow> int \<Rightarrow> int
   \<Rightarrow> error + nat \<times> string \<times> stats"
where
  "check_policy_advanced list_api names_api detail_api policy_name
     warning critical =
     and_then list_api (\<lambda>data.
     and_then (find_policy (lower policy_name)
                 (case entities data of None \<Rightarrow> [] | Some es \<Rightarrow> es)) (\<lambda>policy_uuid.
       if \<not> truthy policy_uuid then Inl (policy_not_found names_api policy_name)
       else
         and_then (detail_api (str_opt policy_uuid)) (\<lambda>data.
         and_then (first_entity data) (\<lambda>policy.
           let stats = policy_stats policy;
               uncompliant_count = stats ''total_uncompliant'';
               (exit_code, status_label) =
                 (if uncompliant_count \<ge> critical then (EXIT_CRITICAL, ''CRITICAL'')
                  else if uncompliant_count \<ge> warning then (EXIT_WARNING, ''WARNING'')
                  else (EXIT_OK, ''OK''))
           in Inr (exit_code, status_label, stats)))))"

subsection \<open>\<^verbatim>\<open>jobs\<close> and \<^verbatim>\<open>backup-validation\<close>\<close>

text \<open>
  Both read the jobs of the time window; the window only shapes the request, so the
  handlers are functions of the response. \<^verbatim>\<open>check_jobs\<close> also collects the failed
  jobs (task name, status, type) for the verbose lines.
\<close>

definition count_job ::
  "stats \<times> (string \<times> string \<times> string) list \<Rightarrow> entity
   \<Rightarrow> stats \<times> (string \<times> string \<times> string) list"
where
  "count_job acc job =
     (let (stats, failed_jobs) = acc;
          status = upper (get_str job ''status'' ''UNKNOWN'');
          job_type = get_str job ''type'' ''UNKNOWN'';
          task_name = get_str job ''taskName'' ''Unknown task''
      in if status = ''OK'' then (incr stats ''ok'', failed_jobs)
         else if status = ''WARNING'' then
           (incr stats ''warning'', failed_jobs @ [(task_name, status, job_type)])
         else if status = ''ERROR'' then
           (incr stats ''error'', failed_jobs @ [(task_name, status, job_type)])
         else if status \<in> set [''RUNNING'', ''QUEUED'', ''PENDING''] then
           (incr stats ''running'', failed_jobs)
         else (incr stats ''other'', failed_jobs))"

definition check_jobs ::
  "api_result \<Rightarrow> int \<Rightarrow> int
   \<Rightarrow> error + nat \<times> string \<times> stats \<times> (string \<times> string \<times> string) list"
where
  "check_jobs api warning critical =
     and_then api (\<lambda>data.
       let stats = (\<lambda>_. 0);
           stats = (case metadata data of
                      None \<Rightarrow> stats
                    | Some m \<Rightarrow> stats(''total'' := get_int m ''grandTotalEntityCount'' 0));
           (stats, failed_jobs) =
             (case entities data of
                None \<Rightarrow> (stats, [])
              | Some es \<Rightarrow> foldl count_job (stats, []) es);
           stats = stats(''failed'' := stats ''warning'' + stats ''error'');
           (exit_code, status_label) =
             (if stats ''failed'' \<ge> critical then (EXIT_CRITICAL, ''CRITICAL'')
              else if stats ''failed'' \<ge> warning then (EXIT_WARNING, ''WARNING'')
              else (EXIT_OK, ''OK''))
       in Inr (exit_code, status_label, stats, failed_jobs))"

definition count_validation :: "stats \<Rightarrow> entity \<Rightarrow> stats" where
  "count_validation stats job =
     (let job_type = get_str job ''type'' [] in
      if contains job_type ''VALIDATION'' \<or> contains job_type ''RESTORE_VALIDATE'' then
        (let stats = incr stats ''total'';
             status = upper (get_str job ''status'' ''UNKNOWN'')
         in if status = ''OK'' then incr stats ''ok''
            else if status = ''WARNING'' then incr stats ''warning''
            else if status = ''ERROR'' then incr stats ''error''
            else stats)
      else stats)"

definition check_backup_validation ::
  "api_result \<Rightarrow> int \<Rightarrow> int \<Rightarrow> error + nat \<times> string \<times> stats"
where
  "check_backup_validation api warning critical =
     and_then api (\<lambda>data.
       let stats = (case entities data of
                      None \<Rightarrow> (\<lambda>_. 0)
                    | Some es \<Rightarrow> foldl count_validation (\<lambda>_. 0) es);
           stats = stats(''failed'' := stats ''warning'' + stats ''error'');
           (exit_code, status_label) =
             (if stats ''failed'' \<ge> critical then (EXIT_CRITICAL, ''CRITICAL'')
              else if stats ''failed'' \<ge> warning then (EXIT_WARNING, ''WARNING'')
              else (EXIT_OK, ''OK''))
       in Inr (exit_code, status_label, stats))"

subsection \<open>\<^verbatim>\<open>license\<close>\<close>

text \<open>
  The countdown: fewer days left is worse. The handler returns at once, with CRITICAL,
  when the response has no license entity; otherwise the third component is the
  \<^verbatim>\<open>daysLeft\<close> it read.
\<close>

definition check_license :: "api_result \<Rightarrow> int \<Rightarrow> int \<Rightarrow> error + nat \<times> string \<times> int option" where
  "check_license api warning_days critical_days =
     and_then api (\<lambda>data.
       if entities data = None \<or> entities data = Some [] then
         Inr (EXIT_CRITICAL, ''CRITICAL'', None)
       else
         and_then (first_entity data) (\<lambda>lic.
           let days_left = get_int lic ''daysLeft'' 0;
               (exit_code, status_label) =
                 (if days_left \<le> critical_days then (EXIT_CRITICAL, ''CRITICAL'')
                  else if days_left \<le> warning_days then (EXIT_WARNING, ''WARNING'')
                  else (EXIT_OK, ''OK''))
           in Inr (exit_code, status_label, Some days_left)))"

subsection \<open>\<^verbatim>\<open>shares\<close> and \<^verbatim>\<open>buckets\<close>\<close>

text \<open>
  Both handlers read the same listing and differ in the test on
  \<^verbatim>\<open>protocolTypeList\<close>: \<^verbatim>\<open>any(p in ['NFS', 'SMB'] for p in protocols)\<close> for
  shares, \<^verbatim>\<open>'S3' in protocols\<close> for buckets. The functions below are the bodies of
  the two loops.
\<close>

definition count_share :: "stats \<Rightarrow> entity \<Rightarrow> stats" where
  "count_share stats share =
     (let protocols = get_list share ''protocolTypeList'' [] in
      if \<not> (\<exists>p \<in> set protocols. p \<in> set [''NFS'', ''SMB'']) then stats
      else
        let status = get_str share ''status'' ''UNKNOWN'';
            compliancy_status = get_str share ''compliancyStatus'' ''UNKNOWN''
        in if status \<in> set [''PROTECTED'', ''UNPROTECTED''] then
             (let stats = incr stats ''total'' in
              if status = ''PROTECTED'' then
                (let stats = incr stats ''protected'' in
                 if compliancy_status = ''GREEN'' then incr stats ''compliant''
                 else if compliancy_status \<in> set [''RED'', ''YELLOW'']
                 then incr stats ''non_compliant''
                 else stats)
              else incr stats ''unprotected'')
           else stats)"

definition count_bucket :: "stats \<Rightarrow> entity \<Rightarrow> stats" where
  "count_bucket stats bucket =
     (let protocols = get_list bucket ''protocolTypeList'' [] in
      if ''S3'' \<notin> set protocols then stats
      else
        let status = get_str bucket ''status'' ''UNKNOWN'';
            compliancy_status = get_str bucket ''compliancyStatus'' ''UNKNOWN''
        in if status \<in> set [''PROTECTED'', ''UNPROTECTED''] then
             (let stats = incr stats ''total'' in
              if status = ''PROTECTED'' then
                (let stats = incr stats ''protected'' in
                 if compliancy_status = ''GREEN'' then incr stats ''compliant''
                 else if compliancy_status \<in> set [''RED'', ''YELLOW'']
                 then incr stats ''non_compliant''
                 else stats)
              else incr stats ''unprotected'')
           else stats)"

definition check_shares :: "api_result \<Rightarrow> int \<Rightarrow> int \<Rightarrow> error + nat \<times> string \<times> stats" where
  "check_shares api warning critical =
     and_then api (\<lambda>data.
       let stats = (case entities data of
                      None \<Rightarrow> (\<lambda>_. 0)
                    | Some es \<Rightarrow> foldl count_share (\<lambda>_. 0) es);
           (exit_code, status_label) =
             (if stats ''non_compliant'' \<ge> critical then (EXIT_CRITICAL, ''CRITICAL'')
              else if stats ''non_compliant'' \<ge> warning then (EXIT_WARNING, ''WARNING'')
              else (EXIT_OK, ''OK''))
       in Inr (exit_code, status_label, stats))"

definition check_buckets :: "api_result \<Rightarrow> int \<Rightarrow> int \<Rightarrow> error + nat \<times> string \<times> stats" where
  "check_buckets api warning critical =
     and_then api (\<lambda>data.
       let stats = (case entities data of
                      None \<Rightarrow> (\<lambda>_. 0)
                    | Some es \<Rightarrow> foldl count_bucket (\<lambda>_. 0) es);
           (exit_code, status_label) =
             (if stats ''non_compliant'' \<ge> critical then (EXIT_CRITICAL, ''CRITICAL'')
              else if stats ''non_compliant'' \<ge> warning then (EXIT_WARNING, ''WARNING'')
              else (EXIT_OK, ''OK''))
       in Inr (exit_code, status_label, stats))"

subsection \<open>\<^verbatim>\<open>unassigned\<close>\<close>

text \<open>
  The handler runs five blocks, each inside \<^verbatim>\<open>try: ... except Exception\<close>, over
  three pieces of local state: the variable \<^verbatim>\<open>data\<close> (unbound until the first
  request succeeds; each successful request rebinds it), the counters \<^verbatim>\<open>stats\<close> and
  the lists of names \<^verbatim>\<open>unassigned_objects\<close>. Four blocks start with a request of
  their own (\<^verbatim>\<open>/vms\<close>, \<^verbatim>\<open>/shares\<close>, \<^verbatim>\<open>/applications\<close>, \<^verbatim>\<open>/volumegroups\<close>);
  the block for buckets makes no request and reads \<^verbatim>\<open>data\<close> as the blocks before
  it left it.
\<close>

type_synonym unassigned_state = "response option \<times> stats \<times> (string \<Rightarrow> string list)"

text \<open>
  The common part of the five loop bodies: an entity whose \<^verbatim>\<open>protectionGroupName\<close>
  is absent, null or empty is appended to the list of its category under the name in
  \<open>name_key\<close>, and counted.
\<close>

definition count_unassigned ::
  "string \<Rightarrow> string \<Rightarrow> stats \<times> (string \<Rightarrow> string list) \<Rightarrow> entity
   \<Rightarrow> stats \<times> (string \<Rightarrow> string list)"
where
  "count_unassigned category name_key acc obj =
     (let (stats, unassigned_objects) = acc;
          protection_group = strs obj ''protectionGroupName''
      in if \<not> truthy protection_group then
           (let obj_name = get_str obj name_key ''Unknown'';
                unassigned_objects =
                  unassigned_objects(category := unassigned_objects category @ [obj_name])
            in (incr stats category, unassigned_objects))
         else acc)"

definition count_entities ::
  "(stats \<times> (string \<Rightarrow> string list) \<Rightarrow> entity \<Rightarrow> stats \<times> (string \<Rightarrow> string list))
   \<Rightarrow> response \<Rightarrow> stats \<times> (string \<Rightarrow> string list) \<Rightarrow> stats \<times> (string \<Rightarrow> string list)"
where
  "count_entities body data acc =
     (case entities data of None \<Rightarrow> acc | Some es \<Rightarrow> foldl body acc es)"

text \<open>
  A block that starts with \<^verbatim>\<open>data = api_request(url, ...)\<close>, and the block for
  buckets: reading the unbound \<^verbatim>\<open>data\<close> raises \<^verbatim>\<open>UnboundLocalError\<close>, a
  \<^verbatim>\<open>NameError\<close>. A block raises only before it has changed anything.
\<close>

definition fetch_block ::
  "api_result
   \<Rightarrow> (stats \<times> (string \<Rightarrow> string list) \<Rightarrow> entity \<Rightarrow> stats \<times> (string \<Rightarrow> string list))
   \<Rightarrow> unassigned_state \<Rightarrow> error + unassigned_state"
where
  "fetch_block api body st =
     and_then api (\<lambda>data. Inr (Some data, count_entities body data (snd st)))"

definition stale_block ::
  "(stats \<times> (string \<Rightarrow> string list) \<Rightarrow> entity \<Rightarrow> stats \<times> (string \<Rightarrow> string list))
   \<Rightarrow> unassigned_state \<Rightarrow> error + unassigned_state"
where
  "stale_block body st =
     (case fst st of
        None \<Rightarrow> Inl (NameError ''data'')
      | Some data \<Rightarrow> Inr (Some data, count_entities body data (snd st)))"

text \<open>
  \<^verbatim>\<open>except Exception\<close> catches every exception of the model but \<^verbatim>\<open>SystemExit\<close>;
  its handler only prints in verbose mode, so the run goes on with the state as the
  block found it.
\<close>

definition is_exception :: "error \<Rightarrow> bool" where
  "is_exception e = (case e of SystemExit _ _ \<Rightarrow> False | _ \<Rightarrow> True)"

definition try_except ::
  "(unassigned_state \<Rightarrow> error + unassigned_state) \<Rightarrow> unassigned_state
   \<Rightarrow> error + unassigned_state"
where
  "try_except block st =
     (case block st of
        Inr st' \<Rightarrow> Inr st'
      | Inl e \<Rightarrow> if is_exception e then Inr st else Inl e)"

definition share_body ::
  "stats \<times> (string \<Rightarrow> string list) \<Rightarrow> entity \<Rightarrow> stats \<times> (string \<Rightarrow> string list)"
where
  "share_body acc share =
     (let protocols = get_list share ''protocolTypeList'' [] in
      if \<not> (\<exists>p \<in> set protocols. p \<in> set [''NFS'', ''SMB'']) then acc
      else count_unassigned ''shares'' ''shareName'' acc share)"

definition bucket_body ::
  "stats \<times> (string \<Rightarrow> string list) \<Rightarrow> entity \<Rightarrow> stats \<times> (string \<Rightarrow> string list)"
where
  "bucket_body acc bucket =
     (let protocols = get_list bucket ''protocolTypeList'' [] in
      if ''S3'' \<notin> set protocols then acc
      else count_unassigned ''buckets'' ''shareName'' acc bucket)"

definition check_unassigned ::
  "api_result \<Rightarrow> api_result \<Rightarrow> api_result \<Rightarrow> api_result \<Rightarrow> int \<Rightarrow> int
   \<Rightarrow> error + nat \<times> string \<times> stats \<times> (string \<Rightarrow> string list)"
where
  "check_unassigned vms_api shares_api apps_api vgs_api warning critical =
     and_then (try_except (fetch_block vms_api (count_unassigned ''vms'' ''vmName''))
                 (None, (\<lambda>_. 0), (\<lambda>_. []))) (\<lambda>st.
     and_then (try_except (fetch_block shares_api share_body) st) (\<lambda>st.
     and_then (try_except (stale_block bucket_body) st) (\<lambda>st.
     and_then (try_except (fetch_block apps_api (count_unassigned ''apps'' ''name'')) st) (\<lambda>st.
     and_then (try_except (fetch_block vgs_api (count_unassigned ''vgs'' ''name'')) st) (\<lambda>st.
       let (data, stats, unassigned_objects) = st;
           stats = stats(''total'' := stats ''vms'' + stats ''shares'' + stats ''buckets''
                                      + stats ''apps'' + stats ''vgs'');
           (exit_code, status_label) =
             (if stats ''total'' \<ge> critical then (EXIT_CRITICAL, ''CRITICAL'')
              else if stats ''total'' \<ge> warning then (EXIT_WARNING, ''WARNING'')
              else (EXIT_OK, ''OK''))
       in Inr (exit_code, status_label, stats, unassigned_objects))))))"

section \<open>Proofs\<close>

lemmas exit_codes = EXIT_OK_def EXIT_WARNING_def EXIT_CRITICAL_def EXIT_UNKNOWN_def

lemma and_then_simps [simp]:
  "and_then (Inl e) f = Inl e"
  "and_then (Inr v) f = f v"
  by (simp_all add: and_then_def)

lemma and_then_Inr: "and_then r f = Inr y \<longleftrightarrow> (\<exists>x. r = Inr x \<and> f x = Inr y)"
  by (cases r) simp_all

lemma and_then_Inl: "and_then r f = Inl e \<longleftrightarrow> r = Inl e \<or> (\<exists>x. r = Inr x \<and> f x = Inl e)"
  by (cases r) simp_all

subsection \<open>Command line: the credential token of \<^verbatim>\<open>port\<close>\<close>

text \<open>
  The command line of the usage example in the header of the source,
  \<^verbatim>\<open>-l 192.168.1.100 -t port -n 8443\<close>, with every other option at its default.
\<close>

definition port_command_line :: options where
  "port_command_line =
     \<lparr>apitoken = None, host = Some ''192.168.1.100'', vmtarget = Some ''8443'',
      scantype = Some ''port'', timeout = 100, verbose = False, warning_threshold = 5,
      critical_threshold = 10, period_hours = 24\<rparr>"

text \<open>
  C1. The claim: for check type \<^verbatim>\<open>port\<close> the token \<^verbatim>\<open>-a\<close> is not required, and a
  command line with host and check type but no token passes argument validation.
  The source lists \<^verbatim>\<open>port\<close> in \<^verbatim>\<open>types_without_token\<close>, but consults that list only
  for the check types of \<^verbatim>\<open>types_without_vmtarget\<close>, where \<^verbatim>\<open>port\<close> is not: the
  command line above takes the branch that requires all four arguments, prints the
  help text and exits with 3. The same command line with a token is accepted.
\<close>

theorem parse_arguments_port_without_token:
  "parse_arguments py_int port_command_line = Inl (SystemExit EXIT_UNKNOWN Help)
   \<and> parse_arguments (\<lambda>_. Some 8443) (port_command_line\<lparr>apitoken := Some ''TOKEN''\<rparr>)
       = Inr (port_command_line\<lparr>apitoken := Some ''TOKEN''\<rparr>)"
  by (simp add: parse_arguments_def required_arguments_def validate_scantype_def
      validate_jobs_def validate_policy_advanced_def validate_license_def
      validate_counting_def validate_port_def port_command_line_def in_list_def truthy_def
      str_opt_def types_without_vmtarget_def ALL_CHECK_TYPES_def CHECK_TYPES_def)

subsection \<open>Threshold validation\<close>

lemma validate_thresholds_Inr:
  "validate_thresholds w c inverted = Inr b \<longleftrightarrow>
     b \<and> 0 \<le> w \<and> 0 \<le> c \<and> (if inverted then c \<le> w else w \<le> c)"
  by (auto simp: validate_thresholds_def)

lemma validate_thresholds_cases:
  "validate_thresholds w c inverted = Inr True
   \<or> (\<exists>text. validate_thresholds w c inverted = Inl (SystemExit EXIT_UNKNOWN text))"
  by (simp add: validate_thresholds_def)

lemma check_thresholds_Inr:
  "check_thresholds inverted opts = Inr opts' \<longleftrightarrow>
     opts' = opts \<and> 0 \<le> warning_threshold opts \<and> 0 \<le> critical_threshold opts
     \<and> (if inverted then critical_threshold opts \<le> warning_threshold opts
         else warning_threshold opts \<le> critical_threshold opts)"
  by (auto simp: check_thresholds_def and_then_Inr validate_thresholds_Inr)

lemma validate_period_Inr: "validate_period opts = Inr opts' \<Longrightarrow> opts' = opts"
  by (auto simp: validate_period_def split: if_splits)

lemma required_arguments_Inr:
  "required_arguments opts = Inr opts' \<Longrightarrow>
     scantype opts' = scantype opts \<and> warning_threshold opts' = warning_threshold opts
     \<and> critical_threshold opts' = critical_threshold opts"
  by (auto simp: required_arguments_def and_then_def split: if_splits sum.splits)

lemma validate_scantype_Inr: "validate_scantype opts = Inr opts' \<Longrightarrow> opts' = opts"
  by (auto simp: validate_scantype_def split: if_splits)

lemma validate_jobs_Inr:
  "validate_jobs opts = Inr opts' \<Longrightarrow>
     opts' = opts \<and> (scantype opts = Some ''jobs'' \<longrightarrow>
        0 \<le> warning_threshold opts \<and> warning_threshold opts \<le> critical_threshold opts)"
  by (auto simp: validate_jobs_def and_then_def check_thresholds_Inr
      dest!: validate_period_Inr split: if_splits sum.splits)

lemma validate_policy_advanced_Inr:
  "validate_policy_advanced opts = Inr opts' \<Longrightarrow>
     opts' = opts \<and> (scantype opts = Some ''policy-advanced'' \<longrightarrow>
        0 \<le> warning_threshold opts \<and> warning_threshold opts \<le> critical_threshold opts)"
  by (auto simp: validate_policy_advanced_def check_thresholds_Inr split: if_splits)

lemma validate_license_Inr:
  "validate_license opts = Inr opts' \<Longrightarrow>
     opts' = opts \<and> (scantype opts = Some ''license'' \<longrightarrow>
        0 \<le> critical_threshold opts \<and> critical_threshold opts \<le> warning_threshold opts)"
  by (auto simp: validate_license_def check_thresholds_Inr split: if_splits)

lemma validate_counting_Inr:
  "validate_counting opts = Inr opts' \<Longrightarrow>
     opts' = opts \<and>
     (in_list (scantype opts) [''backup-validation'', ''shares'', ''buckets'', ''unassigned'']
       \<longrightarrow> 0 \<le> warning_threshold opts \<and> warning_threshold opts \<le> critical_threshold opts)"
  by (auto simp: validate_counting_def and_then_def check_thresholds_Inr
      dest!: validate_period_Inr split: if_splits sum.splits)

text \<open>
  \<^verbatim>\<open>main\<close> calls \<^verbatim>\<open>parse_arguments\<close> first and a handler only after it has
  returned: when it returns, the thresholds of a check type that uses them have
  passed \<^verbatim>\<open>validate_thresholds\<close>.
\<close>

lemma parse_arguments_thresholds:
  assumes "parse_arguments py_int opts = Inr opts'"
  shows "(in_list (scantype opts) [''jobs'', ''policy-advanced'', ''backup-validation'',
            ''shares'', ''buckets'', ''unassigned''] \<longrightarrow>
            0 \<le> warning_threshold opts \<and> warning_threshold opts \<le> critical_threshold opts)
       \<and> (scantype opts = Some ''license'' \<longrightarrow>
            0 \<le> critical_threshold opts \<and> critical_threshold opts \<le> warning_threshold opts)"
proof -
  from assms obtain o1 o2 o3 o4 o5 o6 where
    s1: "required_arguments opts = Inr o1" and s2: "validate_scantype o1 = Inr o2" and
    s3: "validate_jobs o2 = Inr o3" and s4: "validate_policy_advanced o3 = Inr o4" and
    s5: "validate_license o4 = Inr o5" and s6: "validate_counting o5 = Inr o6"
    unfolding parse_arguments_def and_then_Inr by blast
  note r1 = required_arguments_Inr [OF s1]
  have e2: "o2 = o1" using validate_scantype_Inr [OF s2] .
  note r3 = validate_jobs_Inr [OF s3]
  note r4 = validate_policy_advanced_Inr [OF s4]
  note r5 = validate_license_Inr [OF s5]
  note r6 = validate_counting_Inr [OF s6]
  from r1 e2 r3 r4 r5 r6 show ?thesis
    by (auto simp: in_list_def split: option.splits)
qed

text \<open>A command line for \<^verbatim>\<open>jobs\<close> and one for \<^verbatim>\<open>license\<close>, to run the validation on.\<close>

definition jobs_command_line :: options where
  "jobs_command_line =
     \<lparr>apitoken = Some ''TOKEN'', host = Some ''192.168.1.100'', vmtarget = None,
      scantype = Some ''jobs'', timeout = 100, verbose = False, warning_threshold = 5,
      critical_threshold = 10, period_hours = 24\<rparr>"

definition license_command_line :: options where
  "license_command_line =
     \<lparr>apitoken = Some ''TOKEN'', host = Some ''192.168.1.100'', vmtarget = None,
      scantype = Some ''license'', timeout = 100, verbose = False, warning_threshold = 30,
      critical_threshold = 7, period_hours = 24\<rparr>"

lemma parse_jobs_command_line:
  "parse_arguments py_int jobs_command_line
     = Inr (jobs_command_line\<lparr>vmtarget := Some ''jobs''\<rparr>)"
  by (simp add: parse_arguments_def required_arguments_def validate_scantype_def
      validate_jobs_def validate_policy_advanced_def validate_license_def
      validate_counting_def validate_port_def validate_period_def check_thresholds_def
      validate_thresholds_def jobs_command_line_def in_list_def truthy_def
      types_without_vmtarget_def types_without_token_def ALL_CHECK_TYPES_def CHECK_TYPES_def)

lemma parse_license_command_line:
  "parse_arguments py_int license_command_line
     = Inr (license_command_line\<lparr>vmtarget := Some ''license''\<rparr>)"
  by (simp add: parse_arguments_def required_arguments_def validate_scantype_def
      validate_jobs_def validate_policy_advanced_def validate_license_def
      validate_counting_def validate_port_def validate_period_def check_thresholds_def
      validate_thresholds_def license_command_line_def in_list_def truthy_def
      types_without_vmtarget_def types_without_token_def ALL_CHECK_TYPES_def CHECK_TYPES_def)

text \<open>
  C3. For all integer thresholds, \<^verbatim>\<open>validate_thresholds\<close> succeeds in normal mode
  exactly when \<open>critical \<ge> warning \<ge> 0\<close> and in inverted mode exactly when
  \<open>warning \<ge> critical \<ge> 0\<close>; when it does not succeed it exits with code 3; and
  whenever \<^verbatim>\<open>parse_arguments\<close> returns, so that a check can run, the thresholds of a
  counting check have passed the normal validation and those of \<^verbatim>\<open>license\<close> the
  inverted one.
\<close>

theorem validate_thresholds_succeeds_iff:
  "(validate_thresholds warning critical False = Inr True
      \<longleftrightarrow> critical \<ge> warning \<and> warning \<ge> 0)
   \<and> (validate_thresholds warning critical True = Inr True
      \<longleftrightarrow> warning \<ge> critical \<and> critical \<ge> 0)
   \<and> (validate_thresholds warning critical inverted = Inr True
      \<or> (\<exists>text. validate_thresholds warning critical inverted
                  = Inl (SystemExit EXIT_UNKNOWN text)))
   \<and> (parse_arguments py_int opts = Inr opts' \<longrightarrow>
        (in_list (scantype opts) [''jobs'', ''policy-advanced'', ''backup-validation'',
            ''shares'', ''buckets'', ''unassigned''] \<longrightarrow>
          validate_thresholds (warning_threshold opts) (critical_threshold opts) False
            = Inr True)
        \<and> (scantype opts = Some ''license'' \<longrightarrow>
          validate_thresholds (warning_threshold opts) (critical_threshold opts) True
            = Inr True))"
proof (intro conjI impI)
  show "validate_thresholds warning critical False = Inr True
          \<longleftrightarrow> critical \<ge> warning \<and> warning \<ge> 0"
    by (auto simp: validate_thresholds_Inr)
  show "validate_thresholds warning critical True = Inr True
          \<longleftrightarrow> warning \<ge> critical \<and> critical \<ge> 0"
    by (auto simp: validate_thresholds_Inr)
  show "validate_thresholds warning critical inverted = Inr True
      \<or> (\<exists>text. validate_thresholds warning critical inverted
                  = Inl (SystemExit EXIT_UNKNOWN text))"
    by (rule validate_thresholds_cases)
next
  assume "parse_arguments py_int opts = Inr opts'"
    and "in_list (scantype opts) [''jobs'', ''policy-advanced'', ''backup-validation'',
            ''shares'', ''buckets'', ''unassigned'']"
  then show "validate_thresholds (warning_threshold opts) (critical_threshold opts) False
               = Inr True"
    using parse_arguments_thresholds [of py_int opts opts']
    by (simp add: validate_thresholds_Inr)
next
  assume "parse_arguments py_int opts = Inr opts'" and "scantype opts = Some ''license''"
  then show "validate_thresholds (warning_threshold opts) (critical_threshold opts) True
               = Inr True"
    using parse_arguments_thresholds [of py_int opts opts']
    by (simp add: validate_thresholds_Inr)
qed

theorem validate_thresholds_succeeds_iff_witness:
  "validate_thresholds 5 10 False = Inr True
   \<and> validate_thresholds 30 7 True = Inr True
   \<and> (\<exists>text. validate_thresholds 10 5 False = Inl (SystemExit EXIT_UNKNOWN text))
   \<and> (\<exists>text. validate_thresholds 7 30 True = Inl (SystemExit EXIT_UNKNOWN text))
   \<and> (\<exists>text. validate_thresholds (- 1) 10 False = Inl (SystemExit EXIT_UNKNOWN text))
   \<and> parse_arguments (\<lambda>_. None) jobs_command_line
       = Inr (jobs_command_line\<lparr>vmtarget := Some ''jobs''\<rparr>)
   \<and> validate_thresholds (warning_threshold jobs_command_line)
        (critical_threshold jobs_command_line) False = Inr True
   \<and> parse_arguments (\<lambda>_. None) license_command_line
       = Inr (license_command_line\<lparr>vmtarget := Some ''license''\<rparr>)
   \<and> validate_thresholds (warning_threshold license_command_line)
        (critical_threshold license_command_line) True = Inr True"
proof -
  have a: "validate_thresholds 5 10 False = Inr True"
    using validate_thresholds_succeeds_iff [where warning = 5 and critical = 10] by simp
  have b: "validate_thresholds 30 7 True = Inr True"
    using validate_thresholds_succeeds_iff [where warning = 30 and critical = 7] by simp
  have c: "\<exists>text. validate_thresholds 10 5 False = Inl (SystemExit EXIT_UNKNOWN text)"
    using validate_thresholds_succeeds_iff
      [where warning = 10 and critical = 5 and inverted = False
         and py_int = "\<lambda>_. None" and opts = jobs_command_line and opts' = jobs_command_line]
    by auto
  have d: "\<exists>text. validate_thresholds 7 30 True = Inl (SystemExit EXIT_UNKNOWN text)"
    using validate_thresholds_succeeds_iff
      [where warning = 7 and critical = 30 and inverted = True
         and py_int = "\<lambda>_. None" and opts = jobs_command_line and opts' = jobs_command_line]
    by auto
  have e: "\<exists>text. validate_thresholds (- 1) 10 False = Inl (SystemExit EXIT_UNKNOWN text)"
    using validate_thresholds_succeeds_iff
      [where warning = "- 1" and critical = 10 and inverted = False
         and py_int = "\<lambda>_. None" and opts = jobs_command_line and opts' = jobs_command_line]
    by auto
  have pj: "parse_arguments (\<lambda>_. None) jobs_command_line
              = Inr (jobs_command_line\<lparr>vmtarget := Some ''jobs''\<rparr>)"
    by (rule parse_jobs_command_line)
  have j: "in_list (scantype jobs_command_line) [''jobs'', ''policy-advanced'',
             ''backup-validation'', ''shares'', ''buckets'', ''unassigned'']"
    by (simp add: in_list_def jobs_command_line_def)
  have vj: "validate_thresholds (warning_threshold jobs_command_line)
              (critical_threshold jobs_command_line) False = Inr True"
    using validate_thresholds_succeeds_iff
      [where py_int = "\<lambda>_. None" and opts = jobs_command_line
         and opts' = "jobs_command_line\<lparr>vmtarget := Some ''jobs''\<rparr>"] pj j
    by blast
  have pl: "parse_arguments (\<lambda>_. None) license_command_line
              = Inr (license_command_line\<lparr>vmtarget := Some ''license''\<rparr>)"
    by (rule parse_license_command_line)
  have l: "scantype license_command_line = Some ''license''"
    by (simp add: license_command_line_def)
  have vl: "validate_thresholds (warning_threshold license_command_line)
              (critical_threshold license_command_line) True = Inr True"
    using validate_thresholds_succeeds_iff
      [where py_int = "\<lambda>_. None" and opts = license_command_line
         and opts' = "license_command_line\<lparr>vmtarget := Some ''license''\<rparr>"] pl l
    by blast
  from a b c d e pj vj pl vl show ?thesis by blast
qed

subsection \<open>Sample responses\<close>

text \<open>
  Responses to run the handlers on: a target answered as a direct object and as a
  one-element listing, the backups of a VM with one backup, and a license.
\<close>

definition target_direct :: "string \<Rightarrow> response" where
  "target_direct h = empty_response\<lparr>strs := [''name'' \<mapsto> ''nas01'', ''health'' \<mapsto> h]\<rparr>"

definition target_listing :: "string \<Rightarrow> response" where
  "target_listing h =
     empty_response\<lparr>entities :=
       Some [empty_entity\<lparr>strs := [''name'' \<mapsto> ''nas01'', ''health'' \<mapsto> h]\<rparr>]\<rparr>"

definition backup_response :: "string \<Rightarrow> int \<Rightarrow> int \<Rightarrow> response" where
  "backup_response backup_status archives_ok archives_failed =
     empty_response
       \<lparr>entities := Some [empty_entity
          \<lparr>strs := [''status'' \<mapsto> backup_status, ''type'' \<mapsto> ''FULL'', ''vmName'' \<mapsto> ''vm01''],
           ints := [''numberOfArchives'' \<mapsto> archives_ok,
                    ''numberOfFailedArchives'' \<mapsto> archives_failed]\<rparr>],
        metadata := Some (empty_entity\<lparr>ints := [''grandTotalEntityCount'' \<mapsto> 1]\<rparr>)\<rparr>"

definition license_response :: "int \<Rightarrow> response" where
  "license_response days_left =
     empty_response
       \<lparr>entities := Some [empty_entity\<lparr>ints := [''daysLeft'' \<mapsto> days_left]\<rparr>]\<rparr>"

lemmas sample_defs = empty_response_def empty_entity_def target_direct_def target_listing_def
  backup_response_def license_response_def

lemma str_int_small: "str_int 0 = ''0''" "str_int 1 = ''1''" "str_int 2 = ''2''"
  by code_simp+

subsection \<open>Target health\<close>

text \<open>
  C9. For every response, the target handler reads \<^verbatim>\<open>health\<close> from the first
  entity of a non-empty \<^verbatim>\<open>entities\<close> list, else from the response itself, and maps
  it through a fixed table: GREEN to OK, GREY or GRAY to WARNING, RED to CRITICAL; every
  other string, and an absent field, yields UNKNOWN.
\<close>

theorem check_target_health_table:
  assumes "h = (case entities data of Some (e # _) \<Rightarrow> strs e ''health''
                | _ \<Rightarrow> strs data ''health'')"
  shows "\<exists>output. check_target_health (Inr data) target_name =
           Inr (if h = Some ''GREEN'' then EXIT_OK
                else if h = Some ''GREY'' \<or> h = Some ''GRAY'' then EXIT_WARNING
                else if h = Some ''RED'' then EXIT_CRITICAL
                else EXIT_UNKNOWN, output)"
proof (cases "entities data")
  case None
  with assms show ?thesis
    by (cases "strs data ''health''")
       (simp_all add: check_target_health_def lookup_status_def get_str_def
          entity.truncate_def Let_def)
next
  case (Some es)
  show ?thesis
  proof (cases es)
    case Nil
    with Some assms show ?thesis
      by (cases "strs data ''health''")
         (simp_all add: check_target_health_def lookup_status_def get_str_def
            entity.truncate_def Let_def)
  next
    case (Cons e rest)
    with Some assms show ?thesis
      by (cases "strs e ''health''")
         (simp_all add: check_target_health_def lookup_status_def get_str_def Let_def)
  qed
qed

theorem check_target_health_table_witness:
  "(\<exists>output. check_target_health (Inr empty_response) ''nas01'' = Inr (EXIT_UNKNOWN, output))
   \<and> (\<exists>output. check_target_health (Inr (target_direct ''GREEN'')) ''nas01''
                  = Inr (EXIT_OK, output))
   \<and> (\<exists>output. check_target_health (Inr (target_listing ''GRAY'')) ''nas01''
                  = Inr (EXIT_WARNING, output))
   \<and> (\<exists>output. check_target_health (Inr (target_listing ''RED'')) ''nas01''
                  = Inr (EXIT_CRITICAL, output))
   \<and> (\<exists>output. check_target_health (Inr (target_direct ''green'')) ''nas01''
                  = Inr (EXIT_UNKNOWN, output))"
proof -
  have a: "\<exists>output. check_target_health (Inr empty_response) ''nas01''
                      = Inr (EXIT_UNKNOWN, output)"
    using check_target_health_table [of None empty_response "''nas01''"]
    by (simp add: sample_defs)
  have b: "\<exists>output. check_target_health (Inr (target_direct ''GREEN'')) ''nas01''
                      = Inr (EXIT_OK, output)"
    using check_target_health_table [of "Some ''GREEN''" "target_direct ''GREEN''" "''nas01''"]
    by (simp add: sample_defs)
  have c: "\<exists>output. check_target_health (Inr (target_listing ''GRAY'')) ''nas01''
                      = Inr (EXIT_WARNING, output)"
    using check_target_health_table [of "Some ''GRAY''" "target_listing ''GRAY''" "''nas01''"]
    by (simp add: sample_defs)
  have d: "\<exists>output. check_target_health (Inr (target_listing ''RED'')) ''nas01''
                      = Inr (EXIT_CRITICAL, output)"
    using check_target_health_table [of "Some ''RED''" "target_listing ''RED''" "''nas01''"]
    by (simp add: sample_defs)
  have e: "\<exists>output. check_target_health (Inr (target_direct ''green'')) ''nas01''
                      = Inr (EXIT_UNKNOWN, output)"
    using check_target_health_table [of "Some ''green''" "target_direct ''green''" "''nas01''"]
    by (simp add: sample_defs)
  from a b c d e show ?thesis by blast
qed

subsection \<open>Backup status of a VM\<close>

text \<open>
  C10. When the VM has a backup and the status of the latest one is none of OK,
  WARNING and FATAL, the check exits with UNKNOWN and the metrics trailer reads
  \<^verbatim>\<open>backup_status=1\<close>, the value it also has for the status WARNING.
\<close>

theorem check_vm_backup_unmapped_status:
  assumes "grand_total data \<noteq> 0"
      and "entities data = Some (latest_backup # older)"
      and "strs latest_backup ''status'' = Some backup_status"
      and "strs latest_backup ''type'' = Some backup_type"
      and "backup_status \<noteq> ''OK''" and "backup_status \<noteq> ''FATAL''"
  shows "check_vm_backup (Inr data) vm_name =
           Inr (if backup_status = ''WARNING'' then EXIT_WARNING else EXIT_UNKNOWN,
                get_str latest_backup ''vmName'' vm_name @ '' is '' @ backup_status
                @ '' for last '' @ backup_type @ '' |backup_status=1;;;'')"
  using assms
  by (simp add: check_vm_backup_def first_entity_def item_str_def lookup_status_def
      str_int_small Let_def)

theorem check_vm_backup_unmapped_status_witness:
  "check_vm_backup (Inr (backup_response ''ABORTED'' 0 0)) ''vm01''
     = Inr (EXIT_UNKNOWN, ''vm01 is ABORTED for last FULL |backup_status=1;;;'')
   \<and> check_vm_backup (Inr (backup_response ''WARNING'' 0 0)) ''vm01''
     = Inr (EXIT_WARNING, ''vm01 is WARNING for last FULL |backup_status=1;;;'')"
proof -
  have a: "check_vm_backup (Inr (backup_response ''ABORTED'' 0 0)) ''vm01''
     = Inr (EXIT_UNKNOWN, ''vm01 is ABORTED for last FULL |backup_status=1;;;'')"
    using check_vm_backup_unmapped_status
      [of "backup_response ''ABORTED'' 0 0" _ "[]" "''ABORTED''" "''FULL''" "''vm01''"]
    by (simp add: sample_defs grand_total_def get_int_def get_str_def)
  have b: "check_vm_backup (Inr (backup_response ''WARNING'' 0 0)) ''vm01''
     = Inr (EXIT_WARNING, ''vm01 is WARNING for last FULL |backup_status=1;;;'')"
    using check_vm_backup_unmapped_status
      [of "backup_response ''WARNING'' 0 0" _ "[]" "''WARNING''" "''FULL''" "''vm01''"]
    by (simp add: sample_defs grand_total_def get_int_def get_str_def)
  from a b show ?thesis by blast
qed

subsection \<open>Archive status of a VM\<close>

text \<open>
  C6. When the VM has a backup, the archive handler reads the two counters of the
  latest one: at least one failed archive yields CRITICAL whatever the count of good
  ones; no failed and at least one good archive yields OK; none of either yields
  WARNING with the label MISSING.
\<close>

theorem check_archive_status_counters:
  assumes "grand_total data \<noteq> 0"
      and "entities data = Some (latest_backup # older)"
      and "strs latest_backup ''type'' = Some backup_type"
      and "archives_ok = get_int latest_backup ''numberOfArchives'' 0"
      and "archives_failed = get_int latest_backup ''numberOfFailedArchives'' 0"
  shows "(archives_failed \<ge> 1 \<longrightarrow>
            (\<exists>output. check_archive_status (Inr data) vm_name = Inr (EXIT_CRITICAL, output)))
       \<and> (archives_failed = 0 \<and> archives_ok \<ge> 1 \<longrightarrow>
            (\<exists>output. check_archive_status (Inr data) vm_name = Inr (EXIT_OK, output)))
       \<and> (archives_failed = 0 \<and> archives_ok = 0 \<longrightarrow>
            (\<exists>before after. check_archive_status (Inr data) vm_name =
               Inr (EXIT_WARNING, before @ '' archive is MISSING for last '' @ after)))"
  using assms
  by (auto simp: check_archive_status_def first_entity_def item_str_def Let_def)

theorem check_archive_status_counters_witness:
  "(\<exists>output. check_archive_status (Inr (backup_response ''OK'' 3 1)) ''vm01''
                = Inr (EXIT_CRITICAL, output))
   \<and> (\<exists>output. check_archive_status (Inr (backup_response ''OK'' 2 0)) ''vm01''
                = Inr (EXIT_OK, output))
   \<and> (\<exists>before after. check_archive_status (Inr (backup_response ''OK'' 0 0)) ''vm01''
                = Inr (EXIT_WARNING, before @ '' archive is MISSING for last '' @ after))"
proof -
  have a: "\<exists>output. check_archive_status (Inr (backup_response ''OK'' 3 1)) ''vm01''
                = Inr (EXIT_CRITICAL, output)"
    using check_archive_status_counters
      [of "backup_response ''OK'' 3 1" _ "[]" "''FULL''" 3 1 "''vm01''"]
    by (simp add: sample_defs grand_total_def get_int_def)
  have b: "\<exists>output. check_archive_status (Inr (backup_response ''OK'' 2 0)) ''vm01''
                = Inr (EXIT_OK, output)"
    using check_archive_status_counters
      [of "backup_response ''OK'' 2 0" _ "[]" "''FULL''" 2 0 "''vm01''"]
    by (simp add: sample_defs grand_total_def get_int_def)
  have c: "\<exists>before after. check_archive_status (Inr (backup_response ''OK'' 0 0)) ''vm01''
                = Inr (EXIT_WARNING, before @ '' archive is MISSING for last '' @ after)"
    using check_archive_status_counters
      [of "backup_response ''OK'' 0 0" _ "[]" "''FULL''" 0 0 "''vm01''"]
    by (simp add: sample_defs grand_total_def get_int_def)
  from a b c show ?thesis by blast
qed

subsection \<open>License countdown\<close>

text \<open>
  C5. For every \<^verbatim>\<open>daysLeft\<close> of the license: at most \<open>critical_days\<close> yields
  CRITICAL, more than \<open>critical_days\<close> and at most \<open>warning_days\<close> yields WARNING,
  otherwise OK. With warning 30 and critical 7, 7 days left is CRITICAL.
\<close>

theorem check_license_countdown:
  assumes "entities data = Some (lic # others)"
      and "days_left = get_int lic ''daysLeft'' 0"
  shows "(days_left \<le> critical_days \<longrightarrow>
            check_license (Inr data) warning_days critical_days
              = Inr (EXIT_CRITICAL, ''CRITICAL'', Some days_left))
       \<and> (critical_days < days_left \<and> days_left \<le> warning_days \<longrightarrow>
            check_license (Inr data) warning_days critical_days
              = Inr (EXIT_WARNING, ''WARNING'', Some days_left))
       \<and> (critical_days < days_left \<and> warning_days < days_left \<longrightarrow>
            check_license (Inr data) warning_days critical_days
              = Inr (EXIT_OK, ''OK'', Some days_left))"
  using assms by (simp add: check_license_def first_entity_def Let_def)

theorem check_license_countdown_witness:
  "check_license (Inr (license_response 7)) 30 7 = Inr (EXIT_CRITICAL, ''CRITICAL'', Some 7)
   \<and> check_license (Inr (license_response 8)) 30 7 = Inr (EXIT_WARNING, ''WARNING'', Some 8)
   \<and> check_license (Inr (license_response 30)) 30 7 = Inr (EXIT_WARNING, ''WARNING'', Some 30)
   \<and> check_license (Inr (license_response 31)) 30 7 = Inr (EXIT_OK, ''OK'', Some 31)"
proof -
  have a: "check_license (Inr (license_response 7)) 30 7
             = Inr (EXIT_CRITICAL, ''CRITICAL'', Some 7)"
    using check_license_countdown [of "license_response 7" _ "[]" 7 7 30]
    by (simp add: sample_defs get_int_def)
  have b: "check_license (Inr (license_response 8)) 30 7
             = Inr (EXIT_WARNING, ''WARNING'', Some 8)"
    using check_license_countdown [of "license_response 8" _ "[]" 8 7 30]
    by (simp add: sample_defs get_int_def)
  have c: "check_license (Inr (license_response 30)) 30 7
             = Inr (EXIT_WARNING, ''WARNING'', Some 30)"
    using check_license_countdown [of "license_response 30" _ "[]" 30 7 30]
    by (simp add: sample_defs get_int_def)
  have d: "check_license (Inr (license_response 31)) 30 7
             = Inr (EXIT_OK, ''OK'', Some 31)"
    using check_license_countdown [of "license_response 31" _ "[]" 31 7 30]
    by (simp add: sample_defs get_int_def)
  from a b c d show ?thesis by blast
qed

subsection \<open>Thresholds over a count\<close>

text \<open>
  The three cases of the claim for a bad count \<open>n\<close>, thresholds \<open>w\<close> and \<open>c\<close> and an
  exit code, in the claim's own words: at least \<open>c\<close> is CRITICAL, from \<open>w\<close> up to but
  not including \<open>c\<close> is WARNING, below \<open>w\<close> is OK.
\<close>

definition spec_threshold_severity :: "int \<Rightarrow> int \<Rightarrow> int \<Rightarrow> nat \<Rightarrow> bool" where
  "spec_threshold_severity n w c code =
     ((n \<ge> c \<longrightarrow> code = EXIT_CRITICAL)
      \<and> (w \<le> n \<and> n < c \<longrightarrow> code = EXIT_WARNING)
      \<and> (n < w \<longrightarrow> code = EXIT_OK))"

lemma threshold_chain:
  assumes "w \<le> c"
  shows "spec_threshold_severity n w c
           (fst (if n \<ge> c then (EXIT_CRITICAL, ''CRITICAL'')
                 else if n \<ge> w then (EXIT_WARNING, ''WARNING'')
                 else (EXIT_OK, ''OK'')))"
  using assms by (auto simp: spec_threshold_severity_def)


lemma jobs_thresholds:
  assumes "w \<le> c" and "check_jobs api w c = Inr (code, label, stats, failed_jobs)"
  shows "spec_threshold_severity (stats ''failed'') w c code"
proof -
  from assms(2) have "code = fst (if stats ''failed'' \<ge> c then (EXIT_CRITICAL, ''CRITICAL'')
                 else if stats ''failed'' \<ge> w then (EXIT_WARNING, ''WARNING'')
                 else (EXIT_OK, ''OK''))"
    by (auto simp: check_jobs_def and_then_Inr Let_def split_beta)
  with threshold_chain [OF assms(1)] show ?thesis by simp
qed

lemma policy_thresholds:
  assumes "w \<le> c"
      and "check_policy_advanced list_api names_api detail_api policy_name w c
             = Inr (code, label, stats)"
  shows "spec_threshold_severity (stats ''total_uncompliant'') w c code"
proof -
  from assms(2) have "code = fst (if stats ''total_uncompliant'' \<ge> c then (EXIT_CRITICAL, ''CRITICAL'')
                 else if stats ''total_uncompliant'' \<ge> w then (EXIT_WARNING, ''WARNING'')
                 else (EXIT_OK, ''OK''))"
    by (auto simp: check_policy_advanced_def and_then_Inr Let_def split_beta split: if_splits)
  with threshold_chain [OF assms(1)] show ?thesis by simp
qed

lemma validation_thresholds:
  assumes "w \<le> c" and "check_backup_validation api w c = Inr (code, label, stats)"
  shows "spec_threshold_severity (stats ''failed'') w c code"
proof -
  from assms(2) have "code = fst (if stats ''failed'' \<ge> c then (EXIT_CRITICAL, ''CRITICAL'')
                 else if stats ''failed'' \<ge> w then (EXIT_WARNING, ''WARNING'')
                 else (EXIT_OK, ''OK''))"
    by (auto simp: check_backup_validation_def and_then_Inr Let_def split_beta)
  with threshold_chain [OF assms(1)] show ?thesis by simp
qed

lemma shares_thresholds:
  assumes "w \<le> c" and "check_shares api w c = Inr (code, label, stats)"
  shows "spec_threshold_severity (stats ''non_compliant'') w c code"
proof -
  from assms(2) have "code = fst (if stats ''non_compliant'' \<ge> c then (EXIT_CRITICAL, ''CRITICAL'')
                 else if stats ''non_compliant'' \<ge> w then (EXIT_WARNING, ''WARNING'')
                 else (EXIT_OK, ''OK''))"
    by (auto simp: check_shares_def and_then_Inr Let_def split_beta)
  with threshold_chain [OF assms(1)] show ?thesis by simp
qed

lemma buckets_thresholds:
  assumes "w \<le> c" and "check_buckets api w c = Inr (code, label, stats)"
  shows "spec_threshold_severity (stats ''non_compliant'') w c code"
proof -
  from assms(2) have "code = fst (if stats ''non_compliant'' \<ge> c then (EXIT_CRITICAL, ''CRITICAL'')
                 else if stats ''non_compliant'' \<ge> w then (EXIT_WARNING, ''WARNING'')
                 else (EXIT_OK, ''OK''))"
    by (auto simp: check_buckets_def and_then_Inr Let_def split_beta)
  with threshold_chain [OF assms(1)] show ?thesis by simp
qed

lemma unassigned_thresholds:
  assumes "w \<le> c"
      and "check_unassigned vms_api shares_api apps_api vgs_api w c
             = Inr (code, label, stats, unassigned_objects)"
  shows "spec_threshold_severity (stats ''total'') w c code"
proof -
  from assms(2) have "code = fst (if stats ''total'' \<ge> c then (EXIT_CRITICAL, ''CRITICAL'')
                 else if stats ''total'' \<ge> w then (EXIT_WARNING, ''WARNING'')
                 else (EXIT_OK, ''OK''))"
    by (auto simp: check_unassigned_def and_then_Inr Let_def split_beta)
  with threshold_chain [OF assms(1)] show ?thesis by simp
qed

text \<open>On every response, the handlers that make one request return a result.\<close>

lemma counting_handlers_return:
  "\<exists>r. check_jobs (Inr data) w c = Inr r"
  "\<exists>r. check_backup_validation (Inr data) w c = Inr r"
  "\<exists>r. check_shares (Inr data) w c = Inr r"
  "\<exists>r. check_buckets (Inr data) w c = Inr r"
  by (simp_all add: check_jobs_def check_backup_validation_def check_shares_def
      check_buckets_def Let_def split_beta)

text \<open>
  Listings to run the six handlers on. Each holds two bad items: two jobs of a
  validation type that ended with a warning and an error, two non-compliant shares and
  two non-compliant buckets, a policy with two non-compliant objects, and one VM and one
  share without a policy.
\<close>

definition job :: "string \<Rightarrow> string \<Rightarrow> string \<Rightarrow> entity" where
  "job task_name status job_type =
     empty_entity\<lparr>strs := [''taskName'' \<mapsto> task_name, ''status'' \<mapsto> status,
                            ''type'' \<mapsto> job_type]\<rparr>"

definition jobs_sample :: response where
  "jobs_sample =
     empty_response
       \<lparr>entities := Some [job ''Backup vm01'' ''OK'' ''BACKUP'',
                          job ''Validate vm01'' ''warning'' ''BACKUP_VALIDATION'',
                          job ''Validate vm02'' ''ERROR'' ''RESTORE_VALIDATE'',
                          job ''Backup vm03'' ''RUNNING'' ''BACKUP''],
        metadata := Some (empty_entity\<lparr>ints := [''grandTotalEntityCount'' \<mapsto> 4]\<rparr>)\<rparr>"

definition share_entry :: "string \<Rightarrow> string list \<Rightarrow> string \<Rightarrow> string \<Rightarrow> entity" where
  "share_entry share_name protocols status compliancy_status =
     empty_entity\<lparr>strs := [''shareName'' \<mapsto> share_name, ''status'' \<mapsto> status,
                            ''compliancyStatus'' \<mapsto> compliancy_status],
                   lists := [''protocolTypeList'' \<mapsto> protocols]\<rparr>"

definition shares_sample :: response where
  "shares_sample =
     empty_response
       \<lparr>entities := Some [share_entry ''home'' [''NFS''] ''PROTECTED'' ''RED'',
                          share_entry ''projects'' [''SMB''] ''PROTECTED'' ''YELLOW'',
                          share_entry ''scratch'' [''NFS''] ''PROTECTED'' ''GREEN'',
                          share_entry ''logs'' [''S3''] ''PROTECTED'' ''RED'',
                          share_entry ''media'' [''S3''] ''PROTECTED'' ''YELLOW'',
                          share_entry ''old'' [''NFS''] ''UNDEFINED'' ''RED'',
                          share_entry ''tmp'' [''S3''] ''UNPROTECTED'' ''GREEN'']\<rparr>"


definition policies_sample :: response where
  "policies_sample =
     empty_response
       \<lparr>entities := Some [empty_entity\<lparr>strs := [''name'' \<mapsto> ''Silver'', ''uuid'' \<mapsto> ''p1'']\<rparr>,
                          empty_entity\<lparr>strs := [''name'' \<mapsto> ''Gold'', ''uuid'' \<mapsto> ''p2'']\<rparr>]\<rparr>"

definition policy_detail_sample :: "string \<Rightarrow> api_result" where
  "policy_detail_sample policy_uuid =
     (if policy_uuid = ''p2'' then
        Inr (empty_response
          \<lparr>entities := Some [empty_entity
             \<lparr>strs := [''name'' \<mapsto> ''Gold'', ''compliancyStatus'' \<mapsto> ''RED''],
              ints := [''vmsCount'' \<mapsto> 5, ''compliantVmsCount'' \<mapsto> 4,
                       ''uncompliantVmsCount'' \<mapsto> 1, ''sharesCount'' \<mapsto> 1,
                       ''uncompliantSharesCount'' \<mapsto> 1]\<rparr>]\<rparr>)
      else Inl (HycuAPIError ''Resource not found.''))"

definition vms_sample :: response where
  "vms_sample =
     empty_response
       \<lparr>entities := Some [empty_entity\<lparr>strs := [''vmName'' \<mapsto> ''vm01'']\<rparr>,
                          empty_entity\<lparr>strs := [''vmName'' \<mapsto> ''vm02'',
                                                  ''protectionGroupName'' \<mapsto> ''Gold'']\<rparr>]\<rparr>"

definition unassigned_shares_sample :: response where
  "unassigned_shares_sample =
     empty_response
       \<lparr>entities := Some [empty_entity\<lparr>strs := [''shareName'' \<mapsto> ''home''],
                                        lists := [''protocolTypeList'' \<mapsto> [''NFS'']]\<rparr>,
                          empty_entity\<lparr>strs := [''shareName'' \<mapsto> ''logs'',
                                                  ''protectionGroupName'' \<mapsto> ''Gold''],
                                        lists := [''protocolTypeList'' \<mapsto> [''S3'']]\<rparr>]\<rparr>"

text \<open>
  C4. For each of the six handlers \<^verbatim>\<open>jobs\<close>, \<^verbatim>\<open>policy-advanced\<close>,
  \<^verbatim>\<open>backup-validation\<close>, \<^verbatim>\<open>shares\<close>, \<^verbatim>\<open>buckets\<close> and \<^verbatim>\<open>unassigned\<close>,
  given thresholds \<open>warning \<le> critical\<close>: whenever the handler returns, its exit code
  and the bad count \<open>n\<close> among its counters satisfy: \<open>n \<ge> critical\<close> yields CRITICAL,
  \<open>warning \<le> n < critical\<close> yields WARNING, \<open>n < warning\<close> yields OK.
\<close>

theorem threshold_over_count:
  assumes "warning \<le> critical"
  shows
    "(check_jobs jobs_api warning critical = Inr (code_j, label_j, stats_j, failed_jobs)
        \<longrightarrow> spec_threshold_severity (stats_j ''failed'') warning critical code_j)
     \<and> (check_policy_advanced list_api names_api detail_api policy_name warning critical
          = Inr (code_p, label_p, stats_p)
        \<longrightarrow> spec_threshold_severity (stats_p ''total_uncompliant'') warning critical code_p)
     \<and> (check_backup_validation validation_api warning critical
          = Inr (code_v, label_v, stats_v)
        \<longrightarrow> spec_threshold_severity (stats_v ''failed'') warning critical code_v)
     \<and> (check_shares shares_api warning critical = Inr (code_s, label_s, stats_s)
        \<longrightarrow> spec_threshold_severity (stats_s ''non_compliant'') warning critical code_s)
     \<and> (check_buckets buckets_api warning critical = Inr (code_b, label_b, stats_b)
        \<longrightarrow> spec_threshold_severity (stats_b ''non_compliant'') warning critical code_b)
     \<and> (check_unassigned vms_api nas_api apps_api vgs_api warning critical
          = Inr (code_u, label_u, stats_u, unassigned_objects)
        \<longrightarrow> spec_threshold_severity (stats_u ''total'') warning critical code_u)"
proof (intro conjI impI)
  assume "check_jobs jobs_api warning critical = Inr (code_j, label_j, stats_j, failed_jobs)"
  then show "spec_threshold_severity (stats_j ''failed'') warning critical code_j"
    by (rule jobs_thresholds [OF assms])
next
  assume "check_policy_advanced list_api names_api detail_api policy_name warning critical
            = Inr (code_p, label_p, stats_p)"
  then show "spec_threshold_severity (stats_p ''total_uncompliant'') warning critical code_p"
    by (rule policy_thresholds [OF assms])
next
  assume "check_backup_validation validation_api warning critical
            = Inr (code_v, label_v, stats_v)"
  then show "spec_threshold_severity (stats_v ''failed'') warning critical code_v"
    by (rule validation_thresholds [OF assms])
next
  assume "check_shares shares_api warning critical = Inr (code_s, label_s, stats_s)"
  then show "spec_threshold_severity (stats_s ''non_compliant'') warning critical code_s"
    by (rule shares_thresholds [OF assms])
next
  assume "check_buckets buckets_api warning critical = Inr (code_b, label_b, stats_b)"
  then show "spec_threshold_severity (stats_b ''non_compliant'') warning critical code_b"
    by (rule buckets_thresholds [OF assms])
next
  assume "check_unassigned vms_api nas_api apps_api vgs_api warning critical
            = Inr (code_u, label_u, stats_u, unassigned_objects)"
  then show "spec_threshold_severity (stats_u ''total'') warning critical code_u"
    by (rule unassigned_thresholds [OF assms])
qed

theorem threshold_over_count_witness:
  "(\<exists>label stats failed_jobs. check_jobs (Inr jobs_sample) 1 2
        = Inr (EXIT_CRITICAL, label, stats, failed_jobs) \<and> stats ''failed'' = 2)
   \<and> (\<exists>label stats failed_jobs. check_jobs (Inr jobs_sample) 2 3
        = Inr (EXIT_WARNING, label, stats, failed_jobs) \<and> stats ''failed'' = 2)
   \<and> (\<exists>label stats failed_jobs. check_jobs (Inr jobs_sample) 3 4
        = Inr (EXIT_OK, label, stats, failed_jobs) \<and> stats ''failed'' = 2)
   \<and> (\<exists>label stats. check_policy_advanced (Inr policies_sample) (Inr policies_sample) policy_detail_sample ''gold'' 1 2
        = Inr (EXIT_CRITICAL, label, stats) \<and> stats ''total_uncompliant'' = 2)
   \<and> (\<exists>label stats. check_policy_advanced (Inr policies_sample) (Inr policies_sample) policy_detail_sample ''gold'' 2 3
        = Inr (EXIT_WARNING, label, stats) \<and> stats ''total_uncompliant'' = 2)
   \<and> (\<exists>label stats. check_policy_advanced (Inr policies_sample) (Inr policies_sample) policy_detail_sample ''gold'' 3 4
        = Inr (EXIT_OK, label, stats) \<and> stats ''total_uncompliant'' = 2)
   \<and> (\<exists>label stats. check_backup_validation (Inr jobs_sample) 1 2
        = Inr (EXIT_CRITICAL, label, stats) \<and> stats ''failed'' = 2)
   \<and> (\<exists>label stats. check_backup_validation (Inr jobs_sample) 2 3
        = Inr (EXIT_WARNING, label, stats) \<and> stats ''failed'' = 2)
   \<and> (\<exists>label stats. check_backup_validation (Inr jobs_sample) 3 4
        = Inr (EXIT_OK, label, stats) \<and> stats ''failed'' = 2)
   \<and> (\<exists>label stats. check_shares (Inr shares_sample) 1 2
        = Inr (EXIT_CRITICAL, label, stats) \<and> stats ''non_compliant'' = 2)
   \<and> (\<exists>label stats. check_shares (Inr shares_sample) 2 3
        = Inr (EXIT_WARNING, label, stats) \<and> stats ''non_compliant'' = 2)
   \<and> (\<exists>label stats. check_shares (Inr shares_sample) 3 4
        = Inr (EXIT_OK, label, stats) \<and> stats ''non_compliant'' = 2)
   \<and> (\<exists>label stats. check_buckets (Inr shares_sample) 1 2
        = Inr (EXIT_CRITICAL, label, stats) \<and> stats ''non_compliant'' = 2)
   \<and> (\<exists>label stats. check_buckets (Inr shares_sample) 2 3
        = Inr (EXIT_WARNING, label, stats) \<and> stats ''non_compliant'' = 2)
   \<and> (\<exists>label stats. check_buckets (Inr shares_sample) 3 4
        = Inr (EXIT_OK, label, stats) \<and> stats ''non_compliant'' = 2)
   \<and> (\<exists>label stats unassigned_objects. check_unassigned (Inr vms_sample) (Inr unassigned_shares_sample) (Inr empty_response)
        (Inl (HycuAPIError ''Connection error. Check host address and network.'')) 1 2
        = Inr (EXIT_CRITICAL, label, stats, unassigned_objects) \<and> stats ''total'' = 2)
   \<and> (\<exists>label stats unassigned_objects. check_unassigned (Inr vms_sample) (Inr unassigned_shares_sample) (Inr empty_response)
        (Inl (HycuAPIError ''Connection error. Check host address and network.'')) 2 3
        = Inr (EXIT_WARNING, label, stats, unassigned_objects) \<and> stats ''total'' = 2)
   \<and> (\<exists>label stats unassigned_objects. check_unassigned (Inr vms_sample) (Inr unassigned_shares_sample) (Inr empty_response)
        (Inl (HycuAPIError ''Connection error. Check host address and network.'')) 3 4
        = Inr (EXIT_OK, label, stats, unassigned_objects) \<and> stats ''total'' = 2)"
proof -
  have le12: "(1::int) \<le> 2" and le23: "(2::int) \<le> 3" and le34: "(3::int) \<le> 4" by simp_all
  have "case check_jobs (Inr jobs_sample) 1 2 of
          Inr (code, label, stats, failed_jobs) \<Rightarrow> stats ''failed'' = 2 | Inl _ \<Rightarrow> False"
    by code_simp
  then obtain code label stats failed_jobs where
    r: "check_jobs (Inr jobs_sample) 1 2
          = Inr (code, label, stats, failed_jobs)" and n: "stats ''failed'' = 2"
    by (auto split: sum.splits)
  from threshold_over_count [OF le12, THEN conjunct1, THEN mp, OF r] n
  have "code = EXIT_CRITICAL" by (simp add: spec_threshold_severity_def)
  with r n have j1:
    "\<exists>label stats failed_jobs. check_jobs (Inr jobs_sample) 1 2
        = Inr (EXIT_CRITICAL, label, stats, failed_jobs) \<and> stats ''failed'' = 2"
    by blast
  have "case check_jobs (Inr jobs_sample) 2 3 of
          Inr (code, label, stats, failed_jobs) \<Rightarrow> stats ''failed'' = 2 | Inl _ \<Rightarrow> False"
    by code_simp
  then obtain code label stats failed_jobs where
    r: "check_jobs (Inr jobs_sample) 2 3
          = Inr (code, label, stats, failed_jobs)" and n: "stats ''failed'' = 2"
    by (auto split: sum.splits)
  from threshold_over_count [OF le23, THEN conjunct1, THEN mp, OF r] n
  have "code = EXIT_WARNING" by (simp add: spec_threshold_severity_def)
  with r n have j2:
    "\<exists>label stats failed_jobs. check_jobs (Inr jobs_sample) 2 3
        = Inr (EXIT_WARNING, label, stats, failed_jobs) \<and> stats ''failed'' = 2"
    by blast
  have "case check_jobs (Inr jobs_sample) 3 4 of
          Inr (code, label, stats, failed_jobs) \<Rightarrow> stats ''failed'' = 2 | Inl _ \<Rightarrow> False"
    by code_simp
  then obtain code label stats failed_jobs where
    r: "check_jobs (Inr jobs_sample) 3 4
          = Inr (code, label, stats, failed_jobs)" and n: "stats ''failed'' = 2"
    by (auto split: sum.splits)
  from threshold_over_count [OF le34, THEN conjunct1, THEN mp, OF r] n
  have "code = EXIT_OK" by (simp add: spec_threshold_severity_def)
  with r n have j3:
    "\<exists>label stats failed_jobs. check_jobs (Inr jobs_sample) 3 4
        = Inr (EXIT_OK, label, stats, failed_jobs) \<and> stats ''failed'' = 2"
    by blast
  have "case check_policy_advanced (Inr policies_sample) (Inr policies_sample) policy_detail_sample ''gold'' 1 2 of
          Inr (code, label, stats) \<Rightarrow> stats ''total_uncompliant'' = 2 | Inl _ \<Rightarrow> False"
    by code_simp
  then obtain code label stats where
    r: "check_policy_advanced (Inr policies_sample) (Inr policies_sample) policy_detail_sample ''gold'' 1 2
          = Inr (code, label, stats)" and n: "stats ''total_uncompliant'' = 2"
    by (auto split: sum.splits)
  from threshold_over_count [OF le12, THEN conjunct2, THEN conjunct1, THEN mp, OF r] n
  have "code = EXIT_CRITICAL" by (simp add: spec_threshold_severity_def)
  with r n have p1:
    "\<exists>label stats. check_policy_advanced (Inr policies_sample) (Inr policies_sample) policy_detail_sample ''gold'' 1 2
        = Inr (EXIT_CRITICAL, label, stats) \<and> stats ''total_uncompliant'' = 2"
    by blast
  have "case check_policy_advanced (Inr policies_sample) (Inr policies_sample) policy_detail_sample ''gold'' 2 3 of
          Inr (code, label, stats) \<Rightarrow> stats ''total_uncompliant'' = 2 | Inl _ \<Rightarrow> False"
    by code_simp
  then obtain code label stats where
    r: "check_policy_advanced (Inr policies_sample) (Inr policies_sample) policy_detail_sample ''gold'' 2 3
          = Inr (code, label, stats)" and n: "stats ''total_uncompliant'' = 2"
    by (auto split: sum.splits)
  from threshold_over_count [OF le23, THEN conjunct2, THEN conjunct1, THEN mp, OF r] n
  have "code = EXIT_WARNING" by (simp add: spec_threshold_severity_def)
  with r n have p2:
    "\<exists>label stats. check_policy_advanced (Inr policies_sample) (Inr policies_sample) policy_detail_sample ''gold'' 2 3
        = Inr (EXIT_WARNING, label, stats) \<and> stats ''total_uncompliant'' = 2"
    by blast
  have "case check_policy_advanced (Inr policies_sample) (Inr policies_sample) policy_detail_sample ''gold'' 3 4 of
          Inr (code, label, stats) \<Rightarrow> stats ''total_uncompliant'' = 2 | Inl _ \<Rightarrow> False"
    by code_simp
  then obtain code label stats where
    r: "check_policy_advanced (Inr policies_sample) (Inr policies_sample) policy_detail_sample ''gold'' 3 4
          = Inr (code, label, stats)" and n: "stats ''total_uncompliant'' = 2"
    by (auto split: sum.splits)
  from threshold_over_count [OF le34, THEN conjunct2, THEN conjunct1, THEN mp, OF r] n
  have "code = EXIT_OK" by (simp add: spec_threshold_severity_def)
  with r n have p3:
    "\<exists>label stats. check_policy_advanced (Inr policies_sample) (Inr policies_sample) policy_detail_sample ''gold'' 3 4
        = Inr (EXIT_OK, label, stats) \<and> stats ''total_uncompliant'' = 2"
    by blast
  have "case check_backup_validation (Inr jobs_sample) 1 2 of
          Inr (code, label, stats) \<Rightarrow> stats ''failed'' = 2 | Inl _ \<Rightarrow> False"
    by code_simp
  then obtain code label stats where
    r: "check_backup_validation (Inr jobs_sample) 1 2
          = Inr (code, label, stats)" and n: "stats ''failed'' = 2"
    by (auto split: sum.splits)
  from threshold_over_count [OF le12, THEN conjunct2, THEN conjunct2, THEN conjunct1, THEN mp, OF r] n
  have "code = EXIT_CRITICAL" by (simp add: spec_threshold_severity_def)
  with r n have v1:
    "\<exists>label stats. check_backup_validation (Inr jobs_sample) 1 2
        = Inr (EXIT_CRITICAL, label, stats) \<and> stats ''failed'' = 2"
    by blast
  have "case check_backup_validation (Inr jobs_sample) 2 3 of
          Inr (code, label, stats) \<Rightarrow> stats ''failed'' = 2 | Inl _ \<Rightarrow> False"
    by code_simp
  then obtain code label stats where
    r: "check_backup_validation (Inr jobs_sample) 2 3
          = Inr (code, label, stats)" and n: "stats ''failed'' = 2"
    by (auto split: sum.splits)
  from threshold_over_count [OF le23, THEN conjunct2, THEN conjunct2, THEN conjunct1, THEN mp, OF r] n
  have "code = EXIT_WARNING" by (simp add: spec_threshold_severity_def)
  with r n have v2:
    "\<exists>label stats. check_backup_validation (Inr jobs_sample) 2 3
        = Inr (EXIT_WARNING, label, stats) \<and> stats ''failed'' = 2"
    by blast
  have "case check_backup_validation (Inr jobs_sample) 3 4 of
          Inr (code, label, stats) \<Rightarrow> stats ''failed'' = 2 | Inl _ \<Rightarrow> False"
    by code_simp
  then obtain code label stats where
    r: "check_backup_validation (Inr jobs_sample) 3 4
          = Inr (code, label, stats)" and n: "stats ''failed'' = 2"
    by (auto split: sum.splits)
  from threshold_over_count [OF le34, THEN conjunct2, THEN conjunct2, THEN conjunct1, THEN mp, OF r] n
  have "code = EXIT_OK" by (simp add: spec_threshold_severity_def)
  with r n have v3:
    "\<exists>label stats. check_backup_validation (Inr jobs_sample) 3 4
        = Inr (EXIT_OK, label, stats) \<and> stats ''failed'' = 2"
    by blast
  have "case check_shares (Inr shares_sample) 1 2 of
          Inr (code, label, stats) \<Rightarrow> stats ''non_compliant'' = 2 | Inl _ \<Rightarrow> False"
    by code_simp
  then obtain code label stats where
    r: "check_shares (Inr shares_sample) 1 2
          = Inr (code, label, stats)" and n: "stats ''non_compliant'' = 2"
    by (auto split: sum.splits)
  from threshold_over_count [OF le12, THEN conjunct2, THEN conjunct2, THEN conjunct2, THEN conjunct1, THEN mp, OF r] n
  have "code = EXIT_CRITICAL" by (simp add: spec_threshold_severity_def)
  with r n have s1:
    "\<exists>label stats. check_shares (Inr shares_sample) 1 2
        = Inr (EXIT_CRITICAL, label, stats) \<and> stats ''non_compliant'' = 2"
    by blast
  have "case check_shares (Inr shares_sample) 2 3 of
          Inr (code, label, stats) \<Rightarrow> stats ''non_compliant'' = 2 | Inl _ \<Rightarrow> False"
    by code_simp
  then obtain code label stats where
    r: "check_shares (Inr shares_sample) 2 3
          = Inr (code, label, stats)" and n: "stats ''non_compliant'' = 2"
    by (auto split: sum.splits)
  from threshold_over_count [OF le23, THEN conjunct2, THEN conjunct2, THEN conjunct2, THEN conjunct1, THEN mp, OF r] n
  have "code = EXIT_WARNING" by (simp add: spec_threshold_severity_def)
  with r n have s2:
    "\<exists>label stats. check_shares (Inr shares_sample) 2 3
        = Inr (EXIT_WARNING, label, stats) \<and> stats ''non_compliant'' = 2"
    by blast
  have "case check_shares (Inr shares_sample) 3 4 of
          Inr (code, label, stats) \<Rightarrow> stats ''non_compliant'' = 2 | Inl _ \<Rightarrow> False"
    by code_simp
  then obtain code label stats where
    r: "check_shares (Inr shares_sample) 3 4
          = Inr (code, label, stats)" and n: "stats ''non_compliant'' = 2"
    by (auto split: sum.splits)
  from threshold_over_count [OF le34, THEN conjunct2, THEN conjunct2, THEN conjunct2, THEN conjunct1, THEN mp, OF r] n
  have "code = EXIT_OK" by (simp add: spec_threshold_severity_def)
  with r n have s3:
    "\<exists>label stats. check_shares (Inr shares_sample) 3 4
        = Inr (EXIT_OK, label, stats) \<and> stats ''non_compliant'' = 2"
    by blast
  have "case check_buckets (Inr shares_sample) 1 2 of
          Inr (code, label, stats) \<Rightarrow> stats ''non_compliant'' = 2 | Inl _ \<Rightarrow> False"
    by code_simp
  then obtain code label stats where
    r: "check_buckets (Inr shares_sample) 1 2
          = Inr (code, label, stats)" and n: "stats ''non_compliant'' = 2"
    by (auto split: sum.splits)
  from threshold_over_count [OF le12, THEN conjunct2, THEN conjunct2, THEN conjunct2, THEN conjunct2, THEN conjunct1, THEN mp, OF r] n
  have "code = EXIT_CRITICAL" by (simp add: spec_threshold_severity_def)
  with r n have b1:
    "\<exists>label stats. check_buckets (Inr shares_sample) 1 2
        = Inr (EXIT_CRITICAL, label, stats) \<and> stats ''non_compliant'' = 2"
    by blast
  have "case check_buckets (Inr shares_sample) 2 3 of
          Inr (code, label, stats) \<Rightarrow> stats ''non_compliant'' = 2 | Inl _ \<Rightarrow> False"
    by code_simp
  then obtain code label stats where
    r: "check_buckets (Inr shares_sample) 2 3
          = Inr (code, label, stats)" and n: "stats ''non_compliant'' = 2"
    by (auto split: sum.splits)
  from threshold_over_count [OF le23, THEN conjunct2, THEN conjunct2, THEN conjunct2, THEN conjunct2, THEN conjunct1, THEN mp, OF r] n
  have "code = EXIT_WARNING" by (simp add: spec_threshold_severity_def)
  with r n have b2:
    "\<exists>label stats. check_buckets (Inr shares_sample) 2 3
        = Inr (EXIT_WARNING, label, stats) \<and> stats ''non_compliant'' = 2"
    by blast
  have "case check_buckets (Inr shares_sample) 3 4 of
          Inr (code, label, stats) \<Rightarrow> stats ''non_compliant'' = 2 | Inl _ \<Rightarrow> False"
    by code_simp
  then obtain code label stats where
    r: "check_buckets (Inr shares_sample) 3 4
          = Inr (code, label, stats)" and n: "stats ''non_compliant'' = 2"
    by (auto split: sum.splits)
  from threshold_over_count [OF le34, THEN conjunct2, THEN conjunct2, THEN conjunct2, THEN conjunct2, THEN conjunct1, THEN mp, OF r] n
  have "code = EXIT_OK" by (simp add: spec_threshold_severity_def)
  with r n have b3:
    "\<exists>label stats. check_buckets (Inr shares_sample) 3 4
        = Inr (EXIT_OK, label, stats) \<and> stats ''non_compliant'' = 2"
    by blast
  have "case check_unassigned (Inr vms_sample) (Inr unassigned_shares_sample) (Inr empty_response)
        (Inl (HycuAPIError ''Connection error. Check host address and network.'')) 1 2 of
          Inr (code, label, stats, unassigned_objects) \<Rightarrow> stats ''total'' = 2 | Inl _ \<Rightarrow> False"
    by code_simp
  then obtain code label stats unassigned_objects where
    r: "check_unassigned (Inr vms_sample) (Inr unassigned_shares_sample) (Inr empty_response)
        (Inl (HycuAPIError ''Connection error. Check host address and network.'')) 1 2
          = Inr (code, label, stats, unassigned_objects)" and n: "stats ''total'' = 2"
    by (auto split: sum.splits)
  from threshold_over_count [OF le12, THEN conjunct2, THEN conjunct2, THEN conjunct2, THEN conjunct2, THEN conjunct2, THEN mp, OF r] n
  have "code = EXIT_CRITICAL" by (simp add: spec_threshold_severity_def)
  with r n have u1:
    "\<exists>label stats unassigned_objects. check_unassigned (Inr vms_sample) (Inr unassigned_shares_sample) (Inr empty_response)
        (Inl (HycuAPIError ''Connection error. Check host address and network.'')) 1 2
        = Inr (EXIT_CRITICAL, label, stats, unassigned_objects) \<and> stats ''total'' = 2"
    by blast
  have "case check_unassigned (Inr vms_sample) (Inr unassigned_shares_sample) (Inr empty_response)
        (Inl (HycuAPIError ''Connection error. Check host address and network.'')) 2 3 of
          Inr (code, label, stats, unassigned_objects) \<Rightarrow> stats ''total'' = 2 | Inl _ \<Rightarrow> False"
    by code_simp
  then obtain code label stats unassigned_objects where
    r: "check_unassigned (Inr vms_sample) (Inr unassigned_shares_sample) (Inr empty_response)
        (Inl (HycuAPIError ''Connection error. Check host address and network.'')) 2 3
          = Inr (code, label, stats, unassigned_objects)" and n: "stats ''total'' = 2"
    by (auto split: sum.splits)
  from threshold_over_count [OF le23, THEN conjunct2, THEN conjunct2, THEN conjunct2, THEN conjunct2, THEN conjunct2, THEN mp, OF r] n
  have "code = EXIT_WARNING" by (simp add: spec_threshold_severity_def)
  with r n have u2:
    "\<exists>label stats unassigned_objects. check_unassigned (Inr vms_sample) (Inr unassigned_shares_sample) (Inr empty_response)
        (Inl (HycuAPIError ''Connection error. Check host address and network.'')) 2 3
        = Inr (EXIT_WARNING, label, stats, unassigned_objects) \<and> stats ''total'' = 2"
    by blast
  have "case check_unassigned (Inr vms_sample) (Inr unassigned_shares_sample) (Inr empty_response)
        (Inl (HycuAPIError ''Connection error. Check host address and network.'')) 3 4 of
          Inr (code, label, stats, unassigned_objects) \<Rightarrow> stats ''total'' = 2 | Inl _ \<Rightarrow> False"
    by code_simp
  then obtain code label stats unassigned_objects where
    r: "check_unassigned (Inr vms_sample) (Inr unassigned_shares_sample) (Inr empty_response)
        (Inl (HycuAPIError ''Connection error. Check host address and network.'')) 3 4
          = Inr (code, label, stats, unassigned_objects)" and n: "stats ''total'' = 2"
    by (auto split: sum.splits)
  from threshold_over_count [OF le34, THEN conjunct2, THEN conjunct2, THEN conjunct2, THEN conjunct2, THEN conjunct2, THEN mp, OF r] n
  have "code = EXIT_OK" by (simp add: spec_threshold_severity_def)
  with r n have u3:
    "\<exists>label stats unassigned_objects. check_unassigned (Inr vms_sample) (Inr unassigned_shares_sample) (Inr empty_response)
        (Inl (HycuAPIError ''Connection error. Check host address and network.'')) 3 4
        = Inr (EXIT_OK, label, stats, unassigned_objects) \<and> stats ''total'' = 2"
    by blast
  from j1 j2 j3 p1 p2 p3 v1 v2 v3 s1 s2 s3 b1 b2 b3 u1 u2 u3 show ?thesis by (intro conjI)
qed

subsection \<open>Shares and buckets: which handler counts an entry\<close>

text \<open>
  A handler counts an entry when the body of its loop reaches
  \<^verbatim>\<open>stats['total'] += 1\<close> on it.
\<close>

definition counted_by :: "(stats \<Rightarrow> entity \<Rightarrow> stats) \<Rightarrow> entity \<Rightarrow> bool" where
  "counted_by body e = (body (\<lambda>_. 0) e ''total'' = 1)"


text \<open>An entry of the listing that carries two protocol tags.\<close>

definition dual_protocol_entry :: entity where
  "dual_protocol_entry = share_entry ''archive'' [''NFS'', ''S3''] ''PROTECTED'' ''GREEN''"

lemma count_share_total:
  "count_share stats e ''total'' = stats ''total'' +
     (if (''NFS'' \<in> set (get_list e ''protocolTypeList'' [])
          \<or> ''SMB'' \<in> set (get_list e ''protocolTypeList'' []))
         \<and> (get_str e ''status'' ''UNKNOWN'' = ''PROTECTED''
              \<or> get_str e ''status'' ''UNKNOWN'' = ''UNPROTECTED'')
      then 1 else 0)"
  by (auto simp: count_share_def incr_def Let_def)

lemma count_bucket_total:
  "count_bucket stats e ''total'' = stats ''total'' +
     (if ''S3'' \<in> set (get_list e ''protocolTypeList'' [])
         \<and> (get_str e ''status'' ''UNKNOWN'' = ''PROTECTED''
              \<or> get_str e ''status'' ''UNKNOWN'' = ''UNPROTECTED'')
      then 1 else 0)"
  by (auto simp: count_bucket_def incr_def Let_def)

lemma count_share_excluded:
  "\<not> ((''NFS'' \<in> set (get_list e ''protocolTypeList'' [])
          \<or> ''SMB'' \<in> set (get_list e ''protocolTypeList'' []))
         \<and> (get_str e ''status'' ''UNKNOWN'' = ''PROTECTED''
              \<or> get_str e ''status'' ''UNKNOWN'' = ''UNPROTECTED''))
   \<Longrightarrow> count_share stats e = stats"
  by (auto simp: count_share_def Let_def)

lemma count_bucket_excluded:
  "\<not> (''S3'' \<in> set (get_list e ''protocolTypeList'' [])
         \<and> (get_str e ''status'' ''UNKNOWN'' = ''PROTECTED''
              \<or> get_str e ''status'' ''UNKNOWN'' = ''UNPROTECTED''))
   \<Longrightarrow> count_bucket stats e = stats"
  by (auto simp: count_bucket_def Let_def)

lemma counted_by_share:
  "counted_by count_share e \<longleftrightarrow>
     (''NFS'' \<in> set (get_list e ''protocolTypeList'' [])
          \<or> ''SMB'' \<in> set (get_list e ''protocolTypeList'' []))
         \<and> (get_str e ''status'' ''UNKNOWN'' = ''PROTECTED''
              \<or> get_str e ''status'' ''UNKNOWN'' = ''UNPROTECTED'')"
  by (simp add: counted_by_def count_share_total)

lemma counted_by_bucket:
  "counted_by count_bucket e \<longleftrightarrow>
     ''S3'' \<in> set (get_list e ''protocolTypeList'' [])
         \<and> (get_str e ''status'' ''UNKNOWN'' = ''PROTECTED''
              \<or> get_str e ''status'' ''UNKNOWN'' = ''UNPROTECTED'')"
  by (simp add: counted_by_def count_bucket_total)

lemma foldl_count_share_total:
  "foldl count_share stats es ''total''
     = stats ''total'' + int (length (filter (counted_by count_share) es))"
  by (induction es arbitrary: stats) (simp_all add: count_share_total counted_by_share)

lemma foldl_count_bucket_total:
  "foldl count_bucket stats es ''total''
     = stats ''total'' + int (length (filter (counted_by count_bucket) es))"
  by (induction es arbitrary: stats) (simp_all add: count_bucket_total counted_by_bucket)

lemma handler_totals:
  "check_shares (Inr data) w c = Inr (code, label, stats) \<Longrightarrow> entities data = Some es \<Longrightarrow>
     stats ''total'' = int (length (filter (counted_by count_share) es))"
  "check_buckets (Inr data) w c = Inr (code', label', stats') \<Longrightarrow> entities data = Some es \<Longrightarrow>
     stats' ''total'' = int (length (filter (counted_by count_bucket) es))"
  by (auto simp: check_shares_def check_buckets_def Let_def split_beta
      foldl_count_share_total foldl_count_bucket_total)

text \<open>
  C2, as the code has it. For every entry of the listing, with \<open>protocols\<close> its
  \<^verbatim>\<open>protocolTypeList\<close> and \<open>status\<close> its \<^verbatim>\<open>status\<close>: the shares handler counts
  it exactly when the list holds NFS or SMB and the status is PROTECTED or UNPROTECTED,
  the buckets handler exactly when the list holds S3 and the status is one of the two;
  an entry a handler does not count changes none of its counters; and an entry whose
  list does not hold S3 together with NFS or SMB is in exactly one of the four classes
  (counted by shares, counted by buckets, left out for its status, left out for its
  protocols), so that the two handlers never both count it.
\<close>

theorem shares_buckets_classes:
  assumes "protocols = get_list e ''protocolTypeList'' []"
      and "status = get_str e ''status'' ''UNKNOWN''"
      and "nas \<longleftrightarrow> ''NFS'' \<in> set protocols \<or> ''SMB'' \<in> set protocols"
      and "s3 \<longleftrightarrow> ''S3'' \<in> set protocols"
      and "defined \<longleftrightarrow> status = ''PROTECTED'' \<or> status = ''UNPROTECTED''"
  shows "(counted_by count_share e \<longleftrightarrow> nas \<and> defined)
       \<and> (counted_by count_bucket e \<longleftrightarrow> s3 \<and> defined)
       \<and> (\<not> counted_by count_share e \<longrightarrow> count_share stats e = stats)
       \<and> (\<not> counted_by count_bucket e \<longrightarrow> count_bucket stats e = stats)
       \<and> (\<not> (nas \<and> s3) \<longrightarrow>
            length (filter (\<lambda>class. class)
              [counted_by count_share e,
               counted_by count_bucket e,
               (nas \<or> s3) \<and> \<not> defined,
               \<not> nas \<and> \<not> s3]) = 1)
       \<and> (\<not> (nas \<and> s3) \<longrightarrow> \<not> (counted_by count_share e \<and> counted_by count_bucket e))"
  using assms
  by (auto simp: counted_by_share counted_by_bucket count_share_excluded count_bucket_excluded)

lemmas entry_fields = share_entry_def empty_entity_def get_list_def get_str_def

theorem shares_buckets_classes_witness:
  "(counted_by count_share (share_entry ''home'' [''NFS''] ''PROTECTED'' ''RED'')
      \<and> \<not> counted_by count_bucket (share_entry ''home'' [''NFS''] ''PROTECTED'' ''RED''))
   \<and> (counted_by count_bucket (share_entry ''logs'' [''S3''] ''UNPROTECTED'' ''GREEN'')
      \<and> \<not> counted_by count_share (share_entry ''logs'' [''S3''] ''UNPROTECTED'' ''GREEN''))
   \<and> (\<not> counted_by count_share (share_entry ''old'' [''SMB''] ''UNDEFINED'' ''RED'')
      \<and> \<not> counted_by count_bucket (share_entry ''old'' [''SMB''] ''UNDEFINED'' ''RED''))
   \<and> (\<not> counted_by count_share (share_entry ''lun'' [''ISCSI''] ''PROTECTED'' ''RED'')
      \<and> \<not> counted_by count_bucket (share_entry ''lun'' [''ISCSI''] ''PROTECTED'' ''RED''))"
proof -
  have a: "counted_by count_share (share_entry ''home'' [''NFS''] ''PROTECTED'' ''RED'')
      \<and> \<not> counted_by count_bucket (share_entry ''home'' [''NFS''] ''PROTECTED'' ''RED'')"
    using shares_buckets_classes
      [of "[''NFS'']" "share_entry ''home'' [''NFS''] ''PROTECTED'' ''RED''" "''PROTECTED''"
          True False True "\<lambda>_. 0"]
    by (simp add: entry_fields)
  have b: "counted_by count_bucket (share_entry ''logs'' [''S3''] ''UNPROTECTED'' ''GREEN'')
      \<and> \<not> counted_by count_share (share_entry ''logs'' [''S3''] ''UNPROTECTED'' ''GREEN'')"
    using shares_buckets_classes
      [of "[''S3'']" "share_entry ''logs'' [''S3''] ''UNPROTECTED'' ''GREEN''" "''UNPROTECTED''"
          False True True "\<lambda>_. 0"]
    by (simp add: entry_fields)
  have c: "\<not> counted_by count_share (share_entry ''old'' [''SMB''] ''UNDEFINED'' ''RED'')
      \<and> \<not> counted_by count_bucket (share_entry ''old'' [''SMB''] ''UNDEFINED'' ''RED'')"
    using shares_buckets_classes
      [of "[''SMB'']" "share_entry ''old'' [''SMB''] ''UNDEFINED'' ''RED''" "''UNDEFINED''"
          True False False "\<lambda>_. 0"]
    by (simp add: entry_fields)
  have d: "\<not> counted_by count_share (share_entry ''lun'' [''ISCSI''] ''PROTECTED'' ''RED'')
      \<and> \<not> counted_by count_bucket (share_entry ''lun'' [''ISCSI''] ''PROTECTED'' ''RED'')"
    using shares_buckets_classes
      [of "[''ISCSI'']" "share_entry ''lun'' [''ISCSI''] ''PROTECTED'' ''RED''" "''PROTECTED''"
          False False True "\<lambda>_. 0"]
    by (simp add: entry_fields)
  from a b c d show ?thesis by blast
qed

text \<open>
  C2, as the claim states it, fails: each handler tests the list for its own tags, and
  an entry tagged NFS and S3 with a defined status passes both tests.
\<close>

theorem shares_buckets_overlap:
  "counted_by count_share dual_protocol_entry \<and> counted_by count_bucket dual_protocol_entry"
  by (simp add: counted_by_share counted_by_bucket dual_protocol_entry_def share_entry_def
      empty_entity_def get_list_def get_str_def)

subsection \<open>Entity resolution\<close>


lemma entity_dict_of_total:
  "(\<forall>e \<in> set es. strs e name_field \<noteq> None \<and> strs e ''uuid'' \<noteq> None) \<Longrightarrow>
     \<exists>d'. entity_dict_of name_field es d = Inr d'"
  by (induction es arbitrary: d) (auto simp: item_str_def)











subsection \<open>Unassigned objects: what each block contributes\<close>

text \<open>
  The number of entities of a listing that a block selects and that have no policy;
  the two selections on \<^verbatim>\<open>protocolTypeList\<close>; what it means for a loop body to
  count, under a category, the selected entities without a policy; and a request that
  fails only with an exception \<^verbatim>\<open>except Exception\<close> catches, as every failure of
  \<^verbatim>\<open>api_request\<close> is.
\<close>

definition unassigned_in :: "(entity \<Rightarrow> bool) \<Rightarrow> response \<Rightarrow> int" where
  "unassigned_in selected data =
     int (length (filter (\<lambda>e. selected e \<and> \<not> truthy (strs e ''protectionGroupName''))
                    (case entities data of None \<Rightarrow> [] | Some es \<Rightarrow> es)))"

definition is_nas :: "entity \<Rightarrow> bool" where
  "is_nas e = (\<exists>p \<in> set (get_list e ''protocolTypeList'' []). p \<in> set [''NFS'', ''SMB''])"

definition is_s3 :: "entity \<Rightarrow> bool" where
  "is_s3 e = (''S3'' \<in> set (get_list e ''protocolTypeList'' []))"

definition tallies ::
  "(stats \<times> (string \<Rightarrow> string list) \<Rightarrow> entity \<Rightarrow> stats \<times> (string \<Rightarrow> string list))
   \<Rightarrow> string \<Rightarrow> (entity \<Rightarrow> bool) \<Rightarrow> bool"
where
  "tallies body category selected =
     (\<forall>acc e. fst (body acc e) =
        (if selected e \<and> \<not> truthy (strs e ''protectionGroupName'')
         then incr (fst acc) category else fst acc))"

definition raises_only_exceptions :: "api_result \<Rightarrow> bool" where
  "raises_only_exceptions api = (case api of Inl e \<Rightarrow> is_exception e | Inr _ \<Rightarrow> True)"

lemma tallies_count_unassigned: "tallies (count_unassigned category key) category (\<lambda>_. True)"
  by (simp add: tallies_def count_unassigned_def Let_def split_beta)

lemma tallies_share_body: "tallies share_body ''shares'' is_nas"
  by (simp add: tallies_def share_body_def count_unassigned_def is_nas_def Let_def split_beta)

lemma tallies_bucket_body: "tallies bucket_body ''buckets'' is_s3"
  by (simp add: tallies_def bucket_body_def count_unassigned_def is_s3_def Let_def split_beta)

lemma tallies_foldl:
  assumes "tallies body category selected"
  shows "fst (foldl body acc es) k = fst acc k +
           (if k = category
            then int (length (filter (\<lambda>e. selected e \<and> \<not> truthy (strs e ''protectionGroupName''))
                                es))
            else 0)"
proof (induction es arbitrary: acc)
  case Nil
  then show ?case by simp
next
  case (Cons e es)
  have step: "fst (body acc e) =
        (if selected e \<and> \<not> truthy (strs e ''protectionGroupName'')
         then incr (fst acc) category else fst acc)"
    by (rule assms [unfolded tallies_def, rule_format])
  show ?case by (simp add: Cons.IH step incr_def)
qed

lemma tallies_count_entities:
  assumes "tallies body category selected"
  shows "fst (count_entities body data acc) k
           = fst acc k + (if k = category then unassigned_in selected data else 0)"
  by (cases "entities data")
     (simp_all add: count_entities_def unassigned_in_def tallies_foldl [OF assms])

lemma try_fetch_block:
  assumes "raises_only_exceptions api"
  shows "try_except (fetch_block api body) st
           = Inr (case api of Inl _ \<Rightarrow> st
                  | Inr data \<Rightarrow> (Some data, count_entities body data (snd st)))"
  using assms
  by (cases api) (simp_all add: try_except_def fetch_block_def raises_only_exceptions_def)

lemma try_stale_block:
  "try_except (stale_block body) st
     = Inr (case fst st of None \<Rightarrow> st
            | Some data \<Rightarrow> (Some data, count_entities body data (snd st)))"
  by (cases "fst st") (simp_all add: try_except_def stale_block_def is_exception_def)

text \<open>The state after each kind of block, component by component.\<close>

lemma fetch_block_stats:
  assumes "tallies body category selected"
  shows "fst (snd (case api of Inl _ \<Rightarrow> st
                   | Inr data \<Rightarrow> (Some data, count_entities body data (snd st)))) k
           = fst (snd st) k +
             (case api of Inl _ \<Rightarrow> 0
              | Inr data \<Rightarrow> if k = category then unassigned_in selected data else 0)"
  by (cases api) (simp_all add: tallies_count_entities [OF assms])

lemma fetch_block_data:
  "fst (case api of Inl _ \<Rightarrow> st
        | Inr data \<Rightarrow> (Some data, count_entities body data (snd st)))
     = (case api of Inl _ \<Rightarrow> fst st | Inr data \<Rightarrow> Some data)"
  by (cases api) simp_all

lemma stale_block_stats:
  assumes "tallies body category selected"
  shows "fst (snd (case fst st of None \<Rightarrow> st
                   | Some data \<Rightarrow> (Some data, count_entities body data (snd st)))) k
           = fst (snd st) k +
             (case fst st of None \<Rightarrow> 0
              | Some data \<Rightarrow> if k = category then unassigned_in selected data else 0)"
  by (cases "fst st") (simp_all add: tallies_count_entities [OF assms])

text \<open>
  Whatever requests fail, the handler returns a result. A category with a request of
  its own counts the unassigned entities of its listing, and nothing when the request
  failed. The buckets are counted in whatever response \<^verbatim>\<open>data\<close> holds when their
  block runs: the shares listing when that request succeeded, else the VM listing when
  that request succeeded, else nothing.
\<close>

lemma check_unassigned_counts:
  assumes "raises_only_exceptions vms_api" and "raises_only_exceptions shares_api"
      and "raises_only_exceptions apps_api" and "raises_only_exceptions vgs_api"
  shows "\<exists>code label stats unassigned_objects.
           check_unassigned vms_api shares_api apps_api vgs_api warning critical
             = Inr (code, label, stats, unassigned_objects)
           \<and> stats ''vms''
               = (case vms_api of Inl _ \<Rightarrow> 0 | Inr data \<Rightarrow> unassigned_in (\<lambda>_. True) data)
           \<and> stats ''shares''
               = (case shares_api of Inl _ \<Rightarrow> 0 | Inr data \<Rightarrow> unassigned_in is_nas data)
           \<and> stats ''buckets''
               = (case shares_api of
                    Inr data \<Rightarrow> unassigned_in is_s3 data
                  | Inl _ \<Rightarrow> (case vms_api of Inr data \<Rightarrow> unassigned_in is_s3 data
                             | Inl _ \<Rightarrow> 0))
           \<and> stats ''apps''
               = (case apps_api of Inl _ \<Rightarrow> 0 | Inr data \<Rightarrow> unassigned_in (\<lambda>_. True) data)
           \<and> stats ''vgs''
               = (case vgs_api of Inl _ \<Rightarrow> 0 | Inr data \<Rightarrow> unassigned_in (\<lambda>_. True) data)
           \<and> stats ''total'' = stats ''vms'' + stats ''shares'' + stats ''buckets''
                                 + stats ''apps'' + stats ''vgs''"
proof -
  define st0 :: unassigned_state where "st0 = (None, (\<lambda>_. 0), (\<lambda>_. []))"
  define st1 where "st1 = (case vms_api of Inl _ \<Rightarrow> st0
     | Inr data \<Rightarrow> (Some data, count_entities (count_unassigned ''vms'' ''vmName'') data (snd st0)))"
  define st2 where "st2 = (case shares_api of Inl _ \<Rightarrow> st1
     | Inr data \<Rightarrow> (Some data, count_entities share_body data (snd st1)))"
  define st3 where "st3 = (case fst st2 of None \<Rightarrow> st2
     | Some data \<Rightarrow> (Some data, count_entities bucket_body data (snd st2)))"
  define st4 where "st4 = (case apps_api of Inl _ \<Rightarrow> st3
     | Inr data \<Rightarrow> (Some data, count_entities (count_unassigned ''apps'' ''name'') data (snd st3)))"
  define st5 where "st5 = (case vgs_api of Inl _ \<Rightarrow> st4
     | Inr data \<Rightarrow> (Some data, count_entities (count_unassigned ''vgs'' ''name'') data (snd st4)))"
  have s1: "fst (snd st1) k = (case vms_api of Inl _ \<Rightarrow> 0
              | Inr data \<Rightarrow> if k = ''vms'' then unassigned_in (\<lambda>_. True) data else 0)" for k
    unfolding st1_def by (simp add: fetch_block_stats [OF tallies_count_unassigned] st0_def)
  have d1: "fst st1 = (case vms_api of Inl _ \<Rightarrow> None | Inr data \<Rightarrow> Some data)"
    unfolding st1_def st0_def by (cases vms_api) simp_all
  have s2: "fst (snd st2) k = fst (snd st1) k + (case shares_api of Inl _ \<Rightarrow> 0
              | Inr data \<Rightarrow> if k = ''shares'' then unassigned_in is_nas data else 0)" for k
    unfolding st2_def by (rule fetch_block_stats [OF tallies_share_body])
  have d2: "fst st2 = (case shares_api of Inl _ \<Rightarrow> fst st1 | Inr data \<Rightarrow> Some data)"
    unfolding st2_def by (rule fetch_block_data)
  have s3: "fst (snd st3) k = fst (snd st2) k + (case fst st2 of None \<Rightarrow> 0
              | Some data \<Rightarrow> if k = ''buckets'' then unassigned_in is_s3 data else 0)" for k
    unfolding st3_def by (rule stale_block_stats [OF tallies_bucket_body])
  have s4: "fst (snd st4) k = fst (snd st3) k + (case apps_api of Inl _ \<Rightarrow> 0
              | Inr data \<Rightarrow> if k = ''apps'' then unassigned_in (\<lambda>_. True) data else 0)" for k
    unfolding st4_def by (rule fetch_block_stats [OF tallies_count_unassigned])
  have s5: "fst (snd st5) k = fst (snd st4) k + (case vgs_api of Inl _ \<Rightarrow> 0
              | Inr data \<Rightarrow> if k = ''vgs'' then unassigned_in (\<lambda>_. True) data else 0)" for k
    unfolding st5_def by (rule fetch_block_stats [OF tallies_count_unassigned])
  have r1: "try_except (fetch_block vms_api (count_unassigned ''vms'' ''vmName''))
              (None, (\<lambda>_. 0), (\<lambda>_. [])) = Inr st1"
    unfolding st1_def st0_def by (rule try_fetch_block [OF assms(1)])
  have r2: "try_except (fetch_block shares_api share_body) st1 = Inr st2"
    unfolding st2_def by (rule try_fetch_block [OF assms(2)])
  have r3: "try_except (stale_block bucket_body) st2 = Inr st3"
    unfolding st3_def by (rule try_stale_block)
  have r4: "try_except (fetch_block apps_api (count_unassigned ''apps'' ''name'')) st3 = Inr st4"
    unfolding st4_def by (rule try_fetch_block [OF assms(3)])
  have r5: "try_except (fetch_block vgs_api (count_unassigned ''vgs'' ''name'')) st4 = Inr st5"
    unfolding st5_def by (rule try_fetch_block [OF assms(4)])
  have run: "check_unassigned vms_api shares_api apps_api vgs_api warning critical
      = (let (data, stats, unassigned_objects) = st5;
           stats = stats(''total'' := stats ''vms'' + stats ''shares'' + stats ''buckets''
                                      + stats ''apps'' + stats ''vgs'');
           (exit_code, status_label) =
             (if stats ''total'' \<ge> critical then (EXIT_CRITICAL, ''CRITICAL'')
              else if stats ''total'' \<ge> warning then (EXIT_WARNING, ''WARNING'')
              else (EXIT_OK, ''OK''))
       in Inr (exit_code, status_label, stats, unassigned_objects))"
    unfolding check_unassigned_def by (simp only: r1 r2 r3 r4 r5 and_then_simps)
  have final: "fst (snd st5) k =
      (case vms_api of Inl _ \<Rightarrow> 0
       | Inr data \<Rightarrow> if k = ''vms'' then unassigned_in (\<lambda>_. True) data else 0)
      + (case shares_api of Inl _ \<Rightarrow> 0
         | Inr data \<Rightarrow> if k = ''shares'' then unassigned_in is_nas data else 0)
      + (case fst st2 of None \<Rightarrow> 0
         | Some data \<Rightarrow> if k = ''buckets'' then unassigned_in is_s3 data else 0)
      + (case apps_api of Inl _ \<Rightarrow> 0
         | Inr data \<Rightarrow> if k = ''apps'' then unassigned_in (\<lambda>_. True) data else 0)
      + (case vgs_api of Inl _ \<Rightarrow> 0
         | Inr data \<Rightarrow> if k = ''vgs'' then unassigned_in (\<lambda>_. True) data else 0)" for k
    by (simp add: s5 s4 s3 s2 s1)
  show ?thesis
    unfolding run
    by (cases vms_api; cases shares_api; cases apps_api; cases vgs_api)
       (simp_all add: split_beta Let_def final d2 d1)
qed

text \<open>
  A VM listing whose one entity has no policy and carries the tag S3 in a
  \<^verbatim>\<open>protocolTypeList\<close>.
\<close>

definition tagged_vms_listing :: response where
  "tagged_vms_listing =
     empty_response
       \<lparr>entities := Some [empty_entity\<lparr>strs := [''vmName'' \<mapsto> ''vm01''],
                                        lists := [''protocolTypeList'' \<mapsto> [''S3'']]\<rparr>]\<rparr>"

text \<open>
  C8. The claim: a failed sub-listing request does not abort the handler and the
  failed listing contributes zero. The handler does return, and the VMs, shares,
  applications and volume groups of a failed request count zero
  (\<open>check_unassigned_counts\<close>). The buckets do not: when the request for \<^verbatim>\<open>/shares\<close>
  fails after the request for \<^verbatim>\<open>/vms\<close> succeeded, the block for buckets runs over
  the VM listing. With the listing above, the one unassigned VM is counted a second
  time as a bucket, under the name \<^verbatim>\<open>Unknown\<close>, and with thresholds 2 and 3 the
  handler answers WARNING for a total of 2.
\<close>

theorem check_unassigned_stale_listing:
  "case check_unassigned (Inr tagged_vms_listing) (Inl (HycuAPIError ''HYCU server error: 500''))
          (Inr empty_response) (Inr empty_response) 2 3 of
     Inr (code, label, stats, unassigned_objects) \<Rightarrow>
       code = EXIT_WARNING \<and> stats ''vms'' = 1 \<and> stats ''shares'' = 0
       \<and> stats ''buckets'' = 1 \<and> unassigned_objects ''buckets'' = [''Unknown'']
       \<and> stats ''total'' = 2
   | Inl _ \<Rightarrow> False"
  by code_simp

end
